theory Spec2Isabelle
  imports Complex_Main "HOL-Library.Multiset"
begin

section \<open>JavaScript numbers\<close>

text \<open>
  The matching engine of the carpool planner lives in the route module
  \<^verbatim>\<open>routes/matches\<close>. It computes with JavaScript numbers. A finite double is
  idealised here as a real number (rounding error, overflow and the sign of zero are not
  modelled); the three non-finite values are kept, since \<^verbatim>\<open>Number\<close>,
  \<^verbatim>\<open>parseFloat\<close> and arithmetic on \<^verbatim>\<open>undefined\<close> produce them.
\<close>

datatype jsnum = Num real | PosInf | NegInf | NaN

fun js_neg :: "jsnum \<Rightarrow> jsnum" where
  "js_neg (Num x) = Num (- x)"
| "js_neg PosInf = NegInf"
| "js_neg NegInf = PosInf"
| "js_neg NaN = NaN"

fun js_add :: "jsnum \<Rightarrow> jsnum \<Rightarrow> jsnum" where
  "js_add NaN b = NaN"
| "js_add a NaN = NaN"
| "js_add (Num x) (Num y) = Num (x + y)"
| "js_add PosInf NegInf = NaN"
| "js_add NegInf PosInf = NaN"
| "js_add PosInf b = PosInf"
| "js_add a PosInf = PosInf"
| "js_add NegInf b = NegInf"
| "js_add a NegInf = NegInf"

definition js_sub :: "jsnum \<Rightarrow> jsnum \<Rightarrow> jsnum" where
  "js_sub a b = js_add a (js_neg b)"

text \<open>Multiplication and division by a finite constant, the only products the engine forms.\<close>

fun js_times :: "jsnum \<Rightarrow> real \<Rightarrow> jsnum" where
  "js_times (Num x) c = Num (x * c)"
| "js_times PosInf c = (if 0 < c then PosInf else if c < 0 then NegInf else NaN)"
| "js_times NegInf c = (if 0 < c then NegInf else if c < 0 then PosInf else NaN)"
| "js_times NaN c = NaN"

fun js_over :: "jsnum \<Rightarrow> real \<Rightarrow> jsnum" where
  "js_over (Num x) c =
     (if c = 0 then (if x = 0 then NaN else if 0 < x then PosInf else NegInf)
      else Num (x / c))"
| "js_over PosInf c = (if c < 0 then NegInf else PosInf)"
| "js_over NegInf c = (if c < 0 then PosInf else NegInf)"
| "js_over NaN c = NaN"

text \<open>The comparison \<^verbatim>\<open>a < b\<close>: false as soon as one side is NaN.\<close>

fun js_less :: "jsnum \<Rightarrow> jsnum \<Rightarrow> bool" where
  "js_less NaN b = False"
| "js_less a NaN = False"
| "js_less (Num x) (Num y) = (x < y)"
| "js_less a NegInf = False"
| "js_less NegInf b = True"
| "js_less PosInf b = False"
| "js_less a PosInf = True"

definition js_gt :: "jsnum \<Rightarrow> jsnum \<Rightarrow> bool" where
  "js_gt a b = js_less b a"

definition js_le :: "jsnum \<Rightarrow> jsnum \<Rightarrow> bool" where
  "js_le a b = (a \<noteq> NaN \<and> b \<noteq> NaN \<and> \<not> js_less b a)"

definition Math_max :: "jsnum \<Rightarrow> jsnum \<Rightarrow> jsnum" where
  "Math_max a b = (if a = NaN \<or> b = NaN then NaN else if js_less a b then b else a)"

definition Math_min :: "jsnum \<Rightarrow> jsnum \<Rightarrow> jsnum" where
  "Math_min a b = (if a = NaN \<or> b = NaN then NaN else if js_less b a then b else a)"

text \<open>\<^verbatim>\<open>Math.round\<close> rounds to the nearest integer, halves upwards.\<close>

fun Math_round :: "jsnum \<Rightarrow> jsnum" where
  "Math_round (Num x) = Num (of_int \<lfloor>x + 1 / 2\<rfloor>)"
| "Math_round a = a"

section \<open>Geo and time primitives\<close>

subsection \<open>Time of day\<close>

text \<open>\<^verbatim>\<open>t.split(':')\<close>: the pieces between the separators; never an empty array.\<close>

fun split_on :: "char \<Rightarrow> string \<Rightarrow> string list" where
  "split_on c [] = [[]]"
| "split_on c (x # xs) =
     (if x = c then [] # split_on c xs
      else (case split_on c xs of
              [] \<Rightarrow> [[x]]
            | p # ps \<Rightarrow> (x # p) # ps))"

definition is_digit :: "char \<Rightarrow> bool" where
  "is_digit c = (48 \<le> (of_char c :: nat) \<and> (of_char c :: nat) \<le> 57)"

definition digit_val :: "char \<Rightarrow> nat" where
  "digit_val c = of_char c - 48"

definition decimal :: "string \<Rightarrow> nat" where
  "decimal s = foldl (\<lambda>a c. 10 * a + digit_val c) 0 s"

text \<open>
  \<^verbatim>\<open>Number(s)\<close> on a string. The empty string converts to 0 and a string of decimal
  digits to the number it writes. What the conversion yields on every other string
  (signs, fractions, exponents, blanks, hexadecimal, \<^verbatim>\<open>Infinity\<close>, and NaN for the rest)
  is the parameter \<open>rest\<close>.
\<close>

definition js_Number :: "(string \<Rightarrow> jsnum) \<Rightarrow> string \<Rightarrow> jsnum" where
  "js_Number rest s =
     (if s = [] then Num 0
      else if list_all is_digit s then Num (real (decimal s))
      else rest s)"

text \<open>
  One instance of the parameter, for evaluating the functions on concrete strings: every
  remaining string converts to NaN.
\<close>

definition rest_NaN :: "string \<Rightarrow> jsnum" where
  "rest_NaN s = NaN"

text \<open>
  \<^verbatim>\<open>const [h, m] = t.split(':').map(Number); return h * 60 + m;\<close>
  A missing second piece leaves \<^verbatim>\<open>m\<close> undefined, which adds as NaN. Nothing in the
  function inspects the format of \<open>t\<close>, and it has no failing branch.
\<close>

definition timeToMinutes :: "(string \<Rightarrow> jsnum) \<Rightarrow> string \<Rightarrow> jsnum" where
  "timeToMinutes rest t =
     (case map (js_Number rest) (split_on CHR '':'' t) of
        [] \<Rightarrow> NaN
      | [h] \<Rightarrow> js_add (js_times h 60) NaN
      | h # m # further \<Rightarrow> js_add (js_times h 60) m)"


subsection \<open>Schedule overlap\<close>

record overlap =
  overlapMinutes :: jsnum
  commonDays :: "int list"

definition computeOverlap ::
  "(string \<Rightarrow> jsnum) \<Rightarrow> string \<Rightarrow> string \<Rightarrow> int list \<Rightarrow> string \<Rightarrow> string \<Rightarrow> int list \<Rightarrow> overlap" where
  "computeOverlap rest earliest1 latest1 days1 earliest2 latest2 days2 =
     (let commonDays = filter (\<lambda>d. d \<in> set days2) days1 in
      if length commonDays = 0 then \<lparr>overlapMinutes = Num 0, commonDays = []\<rparr>
      else
        let start = Math_max (timeToMinutes rest earliest1) (timeToMinutes rest earliest2);
            end = Math_min (timeToMinutes rest latest1) (timeToMinutes rest latest2);
            overlapMinutes = Math_max (Num 0) (js_sub end start)
        in \<lparr>overlapMinutes = overlapMinutes, commonDays = commonDays\<rparr>)"

subsection \<open>Role compatibility\<close>

definition rolesCompatible :: "string \<Rightarrow> string \<Rightarrow> bool" where
  "rolesCompatible role1 role2 =
     (if role1 = ''RIDER'' \<and> role2 = ''RIDER'' then False else True)"

subsection \<open>Great-circle distance\<close>

text \<open>\<^verbatim>\<open>Math.atan2(y, x)\<close>, the angle of the point \<open>(x, y)\<close>.\<close>

definition Math_atan2 :: "real \<Rightarrow> real \<Rightarrow> real" where
  "Math_atan2 y x =
     (if 0 < x then arctan (y / x)
      else if x < 0 then (if 0 \<le> y then arctan (y / x) + pi else arctan (y / x) - pi)
      else if 0 < y then pi / 2
      else if y < 0 then - (pi / 2)
      else 0)"

text \<open>
  The haversine quantity \<^verbatim>\<open>a\<close> of the source, and the distance in miles, as
  functions on the reals. In exact arithmetic \<^verbatim>\<open>a\<close> lies between 0 and 1, so the two
  square roots exist. The double arithmetic of the engine can round \<^verbatim>\<open>a\<close> above 1 for
  points that are nearly antipodal, where the source then returns NaN, and can round a
  tiny separation to 0; neither effect is in this model, and nothing below is claimed
  about them.
\<close>

definition haversine_a :: "real \<Rightarrow> real \<Rightarrow> real \<Rightarrow> real \<Rightarrow> real" where
  "haversine_a lat1 lng1 lat2 lng2 =
     (let dLat = (lat2 - lat1) * pi / 180;
          dLng = (lng2 - lng1) * pi / 180
      in sin (dLat / 2) * sin (dLat / 2) +
         cos (lat1 * pi / 180) * cos (lat2 * pi / 180) *
         sin (dLng / 2) * sin (dLng / 2))"

definition haversine :: "real \<Rightarrow> real \<Rightarrow> real \<Rightarrow> real \<Rightarrow> real" where
  "haversine lat1 lng1 lat2 lng2 =
     (let R = 3959;
          a = haversine_a lat1 lng1 lat2 lng2;
          c = 2 * Math_atan2 (sqrt a) (sqrt (1 - a))
      in R * c)"

text \<open>
  The angular separation of two points given in degrees: the angle at the centre of
  the sphere between them, by the spherical law of cosines. This is the reference
  quantity the distance is compared with; the source does not compute it.
\<close>

definition angular_separation :: "real \<Rightarrow> real \<Rightarrow> real \<Rightarrow> real \<Rightarrow> real" where
  "angular_separation lat1 lng1 lat2 lng2 =
     arccos (sin (lat1 * pi / 180) * sin (lat2 * pi / 180) +
             cos (lat1 * pi / 180) * cos (lat2 * pi / 180) * cos ((lng2 - lng1) * pi / 180))"

section \<open>The compute run\<close>

subsection \<open>Stores, configuration and the routing collaborator\<close>

record user_row =
  uid :: string
  display_name :: string
  home_lat :: "real option"
  home_lng :: "real option"

record pref_row =
  user_id :: string
  direction :: string
  earliest_time :: string
  latest_time :: string
  days_of_week :: "int list"
  role :: string

record match_row =
  row_id :: string
  user_a_id :: string
  user_b_id :: string
  row_direction :: string
  row_detour_minutes :: jsnum
  row_time_overlap_minutes :: jsnum
  row_rank_score :: jsnum

record database =
  users :: "user_row list"
  commute_preferences :: "pref_row list"
  match_results :: "match_row list"

text \<open>One element of the response body of a compute run.\<close>

record match_summary =
  match_id :: string
  partner_name :: string
  match_direction :: string
  detour_minutes :: jsnum
  time_overlap_minutes :: jsnum
  rank_score :: jsnum

text \<open>
  The process environment, after the \<^verbatim>\<open>parseFloat\<close> calls of the module: the
  workplace, the two thresholds (15 and 30 unless configured) and the optional API key.
\<close>

record config =
  WORK_LAT :: real
  WORK_LNG :: real
  DETOUR_THRESHOLD :: jsnum
  DISTANCE_THRESHOLD :: jsnum
  GOOGLE_MAPS_API_KEY :: "string option"

definition W_DETOUR :: real where
  "W_DETOUR = 1.0"

definition W_OVERLAP :: real where
  "W_OVERLAP = 0.5"

type_synonym point = "real \<times> real"

text \<open>
  The Distance Matrix service as the engine sees it: a request either rejects (a
  transport error, or a body the handler cannot read, both of which raise inside the
  \<^verbatim>\<open>try\<close> block) or resolves to a status and rows of elements.
\<close>

record dm_element =
  el_status :: string
  duration_value :: real

record dm_data =
  dm_status :: string
  dm_rows :: "dm_element list list"

datatype dm_reply = Rejects | Resolves dm_data

type_synonym fetcher = "point list \<Rightarrow> point list \<Rightarrow> string \<Rightarrow> dm_reply"

datatype 'a attempt = Throws | Returns 'a

text \<open>An entry of a duration table: minutes, \<^verbatim>\<open>null\<close>, or \<^verbatim>\<open>undefined\<close> past the end.\<close>

datatype cell = Minutes real | Null | Undefined

definition cell_at :: "cell list \<Rightarrow> nat \<Rightarrow> cell" where
  "cell_at xs i = (if i < length xs then xs ! i else Undefined)"

fun cell_num :: "cell \<Rightarrow> jsnum" where
  "cell_num (Minutes x) = Num x"
| "cell_num Null = Num 0"
| "cell_num Undefined = NaN"

definition element_minutes :: "dm_element \<Rightarrow> cell" where
  "element_minutes el =
     (if el_status el = ''OK'' then Minutes (duration_value el / 60) else Null)"

definition getDistanceMatrixMinutes ::
  "fetcher \<Rightarrow> point list \<Rightarrow> point list \<Rightarrow> string \<Rightarrow> cell list list option attempt" where
  "getDistanceMatrixMinutes fetch origins destinations apiKey =
     (case fetch origins destinations apiKey of
        Rejects \<Rightarrow> Throws
      | Resolves data \<Rightarrow>
          if dm_status data \<noteq> ''OK'' then Returns None
          else Returns (Some (map (\<lambda>row. map element_minutes row) (dm_rows data))))"

subsection \<open>Drive times\<close>

record drive_times =
  driverToRiderMin :: "cell list option"
  driverToWorkMin :: cell
  riderToWorkMin :: "cell list option"
  requests :: "(point list \<times> point list) list"

text \<open>\<^verbatim>\<open>ToNumber\<close> of a coordinate column: \<^verbatim>\<open>null\<close> counts as 0.\<close>

fun coord :: "real option \<Rightarrow> real" where
  "coord None = 0"
| "coord (Some x) = x"

definition home :: "user_row \<Rightarrow> point" where
  "home u = (coord (home_lat u), coord (home_lng u))"

definition truthy_key :: "string option \<Rightarrow> bool" where
  "truthy_key k = (case k of None \<Rightarrow> False | Some s \<Rightarrow> s \<noteq> [])"

text \<open>
  The second call of the \<^verbatim>\<open>try\<close> block, entered with what the first call assigned.
\<close>

definition second_call ::
  "config \<Rightarrow> fetcher \<Rightarrow> string \<Rightarrow> user_row list \<Rightarrow> drive_times \<Rightarrow> drive_times" where
  "second_call env fetch apiKey candidates dt =
     (let candidatePoints = map home candidates;
          workPoint = (WORK_LAT env, WORK_LNG env);
          dt2 = dt\<lparr>requests := requests dt @ [(candidatePoints, [workPoint])]\<rparr>
      in case getDistanceMatrixMinutes fetch candidatePoints [workPoint] apiKey of
           Throws \<Rightarrow> dt2
         | Returns None \<Rightarrow> dt2
         | Returns (Some call2) \<Rightarrow> dt2\<lparr>riderToWorkMin := Some (map (\<lambda>row. cell_at row 0) call2)\<rparr>)"

text \<open>
  The lookup of real drive times: nothing is requested without an API key or without
  candidates; an exception anywhere in the block ends it, keeping what was assigned.
\<close>

definition fetch_drive_times ::
  "config \<Rightarrow> fetcher \<Rightarrow> user_row \<Rightarrow> user_row list \<Rightarrow> drive_times" where
  "fetch_drive_times env fetch currentUser candidates =
     (let dt0 = \<lparr>driverToRiderMin = None, driverToWorkMin = Null,
                 riderToWorkMin = None, requests = []\<rparr>
      in case GOOGLE_MAPS_API_KEY env of
           None \<Rightarrow> dt0
         | Some apiKey \<Rightarrow>
             if truthy_key (Some apiKey) \<and> length candidates > 0 then
               (let candidatePoints = map home candidates;
                    workPoint = (WORK_LAT env, WORK_LNG env);
                    dt1 = dt0\<lparr>requests := [([home currentUser], candidatePoints @ [workPoint])]\<rparr>
                in case getDistanceMatrixMinutes fetch [home currentUser]
                          (candidatePoints @ [workPoint]) apiKey of
                     Throws \<Rightarrow> dt1
                   | Returns None \<Rightarrow> second_call env fetch apiKey candidates dt1
                   | Returns (Some call1) \<Rightarrow>
                       (case call1 of
                          [] \<Rightarrow> dt1
                        | row0 # further \<Rightarrow>
                            second_call env fetch apiKey candidates
                              (dt1\<lparr>driverToRiderMin := Some (take (length candidates) row0),
                                   driverToWorkMin := cell_at row0 (length candidates)\<rparr>)))
             else dt0)"

subsection \<open>Detour of one candidate\<close>

definition estimated_detour :: "config \<Rightarrow> user_row \<Rightarrow> user_row \<Rightarrow> jsnum" where
  "estimated_detour env currentUser other =
     (let directToWork = haversine (coord (home_lat currentUser)) (coord (home_lng currentUser))
                           (WORK_LAT env) (WORK_LNG env);
          viaOther =
            haversine (coord (home_lat currentUser)) (coord (home_lng currentUser))
              (coord (home_lat other)) (coord (home_lng other)) +
            haversine (coord (home_lat other)) (coord (home_lng other))
              (WORK_LAT env) (WORK_LNG env)
      in Math_max (Num 0) (Num ((viaOther - directToWork) * 2)))"

definition detourMinutes ::
  "config \<Rightarrow> drive_times \<Rightarrow> user_row \<Rightarrow> nat \<Rightarrow> user_row \<Rightarrow> jsnum" where
  "detourMinutes env dt currentUser i other =
     (case driverToRiderMin dt of
        None \<Rightarrow> estimated_detour env currentUser other
      | Some dr \<Rightarrow>
          (case riderToWorkMin dt of
             None \<Rightarrow> estimated_detour env currentUser other
           | Some rw \<Rightarrow>
               if driverToWorkMin dt \<noteq> Null \<and> cell_at dr i \<noteq> Null \<and> cell_at rw i \<noteq> Null
               then Math_max (Num 0)
                      (js_sub (js_add (cell_num (cell_at dr i)) (cell_num (cell_at rw i)))
                         (cell_num (driverToWorkMin dt)))
               else estimated_detour env currentUser other))"

subsection \<open>Pairing and scoring\<close>

record run_state =
  inserted :: "match_row list"
  newMatches :: "match_summary list"

text \<open>\<^verbatim>\<open>Math.round(x * 10) / 10\<close>, the value reported in the response.\<close>

definition one_decimal :: "jsnum \<Rightarrow> jsnum" where
  "one_decimal x = js_over (Math_round (js_times x 10)) 10"

text \<open>The body of the two nested loops over the preferences.\<close>

definition pair_step ::
  "(string \<Rightarrow> jsnum) \<Rightarrow> (nat \<Rightarrow> string) \<Rightarrow> string \<Rightarrow> user_row \<Rightarrow> jsnum \<Rightarrow>
   pref_row \<Rightarrow> run_state \<Rightarrow> pref_row \<Rightarrow> run_state" where
  "pair_step rest uuidv4 userId other detour myPref st otherPref =
     (if direction myPref \<noteq> direction otherPref then st
      else if \<not> rolesCompatible (role myPref) (role otherPref) then st
      else
        let ov = computeOverlap rest
                   (earliest_time myPref) (latest_time myPref) (days_of_week myPref)
                   (earliest_time otherPref) (latest_time otherPref) (days_of_week otherPref)
        in if overlapMinutes ov = Num 0 \<or> length (commonDays ov) = 0 then st
           else
             let rankScore = js_sub (js_times detour W_DETOUR)
                               (js_times (overlapMinutes ov) W_OVERLAP);
                 matchId = uuidv4 (length (newMatches st))
             in \<lparr>inserted = inserted st @
                    [\<lparr>row_id = matchId, user_a_id = userId, user_b_id = uid other,
                      row_direction = direction myPref, row_detour_minutes = detour,
                      row_time_overlap_minutes = overlapMinutes ov,
                      row_rank_score = rankScore\<rparr>],
                 newMatches = newMatches st @
                    [\<lparr>match_id = matchId, partner_name = display_name other,
                      match_direction = direction myPref,
                      detour_minutes = one_decimal detour,
                      time_overlap_minutes = overlapMinutes ov,
                      rank_score = one_decimal rankScore\<rparr>]\<rparr>)"

definition pair_loops ::
  "(string \<Rightarrow> jsnum) \<Rightarrow> (nat \<Rightarrow> string) \<Rightarrow> string \<Rightarrow> user_row \<Rightarrow> jsnum \<Rightarrow>
   pref_row list \<Rightarrow> pref_row list \<Rightarrow> run_state \<Rightarrow> run_state" where
  "pair_loops rest uuidv4 userId other detour myPrefs otherPrefs st =
     foldl (\<lambda>s myPref. foldl (pair_step rest uuidv4 userId other detour myPref) s otherPrefs)
       st myPrefs"

text \<open>
  One turn of the loop over the candidates: the candidate's preferences are read, the
  detour is computed, and the threshold test skips the rest of the turn.
\<close>

definition candidate_step ::
  "config \<Rightarrow> (string \<Rightarrow> jsnum) \<Rightarrow> (nat \<Rightarrow> string) \<Rightarrow> database \<Rightarrow> string \<Rightarrow> drive_times \<Rightarrow>
   user_row \<Rightarrow> pref_row list \<Rightarrow> run_state \<Rightarrow> nat \<times> user_row \<Rightarrow> run_state" where
  "candidate_step env rest uuidv4 db userId dt currentUser myPrefs st c =
     (case c of (i, other) \<Rightarrow>
        let otherPrefs = filter (\<lambda>p. user_id p = uid other) (commute_preferences db);
            detour = detourMinutes env dt currentUser i other
        in if js_gt detour (DETOUR_THRESHOLD env) then st
           else pair_loops rest uuidv4 userId other detour myPrefs otherPrefs st)"

subsection \<open>Ordering of the response\<close>

text \<open>
  \<^verbatim>\<open>newMatches.sort((a, b) => a.rank_score - b.rank_score)\<close>. The comparator reads the
  \<^verbatim>\<open>rank_score\<close> field of the response elements, and a NaN from it counts as 0. The
  sort is stable, and its result is determined when the comparator is consistent on the
  elements: here, when no score is NaN, or when the scores that are not NaN are all the
  same (then every two elements compare as equal). Otherwise a NaN score compares as
  equal to two scores that differ, and the language leaves the order to the engine. The
  model says so instead of choosing an order.
\<close>

definition comparator :: "match_summary \<Rightarrow> match_summary \<Rightarrow> jsnum" where
  "comparator a b = js_sub (rank_score a) (rank_score b)"

fun sort_insert :: "match_summary \<Rightarrow> match_summary list \<Rightarrow> match_summary list" where
  "sort_insert x [] = [x]"
| "sort_insert x (y # ys) =
     (if js_gt (comparator x y) (Num 0) then y # sort_insert x ys else x # y # ys)"

definition consistent_comparator :: "match_summary list \<Rightarrow> bool" where
  "consistent_comparator xs =
     (let scores = map rank_score xs;
          numbers = filter (\<lambda>v. v \<noteq> NaN) scores
      in list_all (\<lambda>v. v \<noteq> NaN) scores \<or>
         list_all (\<lambda>v. list_all (\<lambda>w. v = w) numbers) numbers)"

text \<open>
  The array after the sort: its elements in the order the sort determines, or the
  elements in an order that is the engine's choice.
\<close>

datatype sort_outcome =
    InOrder "match_summary list"
  | EngineOrder "match_summary list"

fun listed :: "sort_outcome \<Rightarrow> match_summary list" where
  "listed (InOrder xs) = xs"
| "listed (EngineOrder xs) = xs"

definition js_sort :: "match_summary list \<Rightarrow> sort_outcome" where
  "js_sort xs =
     (if consistent_comparator xs then InOrder (foldr sort_insert xs [])
      else EngineOrder xs)"

subsection \<open>The route handler\<close>

datatype response =
    Status400 string
  | Status200 nat sort_outcome

record outcome =
  reply :: response
  stored :: "match_row list"
  issued :: "(point list \<times> point list) list"

definition falsy :: "real option \<Rightarrow> bool" where
  "falsy x = (case x of None \<Rightarrow> True | Some v \<Rightarrow> v = 0)"

definition prefilter :: "config \<Rightarrow> user_row \<Rightarrow> user_row list \<Rightarrow> user_row list" where
  "prefilter env currentUser otherUsers =
     filter (\<lambda>other.
        js_le (Num (haversine (coord (home_lat currentUser)) (coord (home_lng currentUser))
                      (coord (home_lat other)) (coord (home_lng other))))
          (DISTANCE_THRESHOLD env)) otherUsers"

definition other_users :: "database \<Rightarrow> string \<Rightarrow> user_row list" where
  "other_users db userId =
     filter (\<lambda>u. uid u \<noteq> userId \<and> home_lat u \<noteq> None \<and> home_lng u \<noteq> None) (users db)"

text \<open>\<^verbatim>\<open>userRows[0]\<close>: the requesting user's row, undefined when there is none.\<close>

definition requester :: "database \<Rightarrow> string \<Rightarrow> user_row option" where
  "requester db userId =
     (case filter (\<lambda>u. uid u = userId) (users db) of
        [] \<Rightarrow> None
      | currentUser # further \<Rightarrow> Some currentUser)"

definition my_preferences :: "database \<Rightarrow> string \<Rightarrow> pref_row list" where
  "my_preferences db userId = filter (\<lambda>p. user_id p = userId) (commute_preferences db)"

text \<open>What the \<^verbatim>\<open>DELETE\<close> statement leaves: the matches the user is no side of.\<close>

definition cleared :: "database \<Rightarrow> string \<Rightarrow> match_row list" where
  "cleared db userId =
     filter (\<lambda>m. \<not> (user_a_id m = userId \<or> user_b_id m = userId)) (match_results db)"

definition candidate_loop ::
  "config \<Rightarrow> (string \<Rightarrow> jsnum) \<Rightarrow> (nat \<Rightarrow> string) \<Rightarrow> database \<Rightarrow> string \<Rightarrow> drive_times \<Rightarrow>
   user_row \<Rightarrow> pref_row list \<Rightarrow> user_row list \<Rightarrow> run_state" where
  "candidate_loop env rest uuidv4 db userId dt currentUser myPrefs candidates =
     foldl (candidate_step env rest uuidv4 db userId dt currentUser myPrefs)
       \<lparr>inserted = [], newMatches = []\<rparr>
       (zip [0 ..< length candidates] candidates)"

definition compute ::
  "config \<Rightarrow> fetcher \<Rightarrow> (string \<Rightarrow> jsnum) \<Rightarrow> (nat \<Rightarrow> string) \<Rightarrow> database \<Rightarrow> string \<Rightarrow> outcome" where
  "compute env fetch rest uuidv4 db userId =
     (case requester db userId of
        None \<Rightarrow> \<lparr>reply = Status400 ''Please set your home address first'',
                  stored = match_results db, issued = []\<rparr>
      | Some currentUser \<Rightarrow>
          if falsy (home_lat currentUser) \<or> falsy (home_lng currentUser) then
            \<lparr>reply = Status400 ''Please set your home address first'',
             stored = match_results db, issued = []\<rparr>
          else
            let myPrefs = my_preferences db userId in
            if length myPrefs = 0 then
              \<lparr>reply = Status400 ''Please set your commute preferences first'',
               stored = match_results db, issued = []\<rparr>
            else
              let otherUsers = other_users db userId;
                  remaining = cleared db userId;
                  candidates = prefilter env currentUser otherUsers;
                  dt = fetch_drive_times env fetch currentUser candidates;
                  st = candidate_loop env rest uuidv4 db userId dt currentUser myPrefs candidates;
                  sorted = js_sort (newMatches st)
              in \<lparr>reply = Status200 (length (listed sorted)) sorted,
                  stored = remaining @ inserted st,
                  issued = requests dt\<rparr>)"

section \<open>Vocabulary of the properties\<close>

text \<open>The requester has no home location: no row, or a row without coordinates.\<close>

definition no_home_location :: "database \<Rightarrow> string \<Rightarrow> bool" where
  "no_home_location db userId =
     (case requester db userId of
        None \<Rightarrow> True
      | Some u \<Rightarrow> home_lat u = None \<or> home_lng u = None)"

definition no_preferences :: "database \<Rightarrow> string \<Rightarrow> bool" where
  "no_preferences db userId = (my_preferences db userId = [])"

text \<open>
  The duration of one leg for candidate \<open>i\<close>, \<^verbatim>\<open>null\<close> when the whole table is, and
  the condition under which the handler takes the \<^verbatim>\<open>else\<close> branch for the candidate.
\<close>

definition leg :: "cell list option \<Rightarrow> nat \<Rightarrow> cell" where
  "leg table i = (case table of None \<Rightarrow> Null | Some xs \<Rightarrow> cell_at xs i)"

definition exact_unavailable :: "drive_times \<Rightarrow> nat \<Rightarrow> bool" where
  "exact_unavailable dt i =
     (leg (driverToRiderMin dt) i = Null \<or> leg (riderToWorkMin dt) i = Null \<or>
      driverToWorkMin dt = Null)"

text \<open>
  The pieces of a run whose preconditions hold, for the requester's row: the candidates
  kept by the prefilter, the drive times looked up for them, and the state after the
  loop over them.
\<close>

definition candidates_of :: "config \<Rightarrow> database \<Rightarrow> string \<Rightarrow> user_row \<Rightarrow> user_row list" where
  "candidates_of env db userId currentUser = prefilter env currentUser (other_users db userId)"

definition drive_times_of ::
  "config \<Rightarrow> fetcher \<Rightarrow> database \<Rightarrow> string \<Rightarrow> user_row \<Rightarrow> drive_times" where
  "drive_times_of env fetch db userId currentUser =
     fetch_drive_times env fetch currentUser (candidates_of env db userId currentUser)"

definition run_of ::
  "config \<Rightarrow> fetcher \<Rightarrow> (string \<Rightarrow> jsnum) \<Rightarrow> (nat \<Rightarrow> string) \<Rightarrow> database \<Rightarrow> string \<Rightarrow>
   user_row \<Rightarrow> run_state" where
  "run_of env fetch rest uuidv4 db userId currentUser =
     candidate_loop env rest uuidv4 db userId (drive_times_of env fetch db userId currentUser)
       currentUser (my_preferences db userId) (candidates_of env db userId currentUser)"

text \<open>
  The content of the row that the pairing of two preferences of the requester and of a
  candidate inserts, for the detour of that candidate: the unrounded detour, the overlap
  of the two schedules, and the score formed from these two.
\<close>

definition row_of_pair ::
  "(string \<Rightarrow> jsnum) \<Rightarrow> string \<Rightarrow> user_row \<Rightarrow> jsnum \<Rightarrow> pref_row \<Rightarrow> pref_row \<Rightarrow>
   match_row \<Rightarrow> bool" where
  "row_of_pair rest userId other detour myPref otherPref row =
     (let ov = overlapMinutes (computeOverlap rest
                 (earliest_time myPref) (latest_time myPref) (days_of_week myPref)
                 (earliest_time otherPref) (latest_time otherPref) (days_of_week otherPref))
      in user_a_id row = userId \<and> user_b_id row = uid other \<and>
         row_direction row = direction myPref \<and>
         row_detour_minutes row = detour \<and>
         row_time_overlap_minutes row = ov \<and>
         row_rank_score row = js_sub (js_times detour W_DETOUR) (js_times ov W_OVERLAP))"

text \<open>Ascending order of the reported scores.\<close>

definition score_le :: "match_summary \<Rightarrow> match_summary \<Rightarrow> bool" where
  "score_le a b = js_le (rank_score a) (rank_score b)"

text \<open>
  A response element reports a stored row: same identifier, direction and overlap, detour
  and score rounded to one decimal. A stored row carries the raw score of its detour and
  overlap.
\<close>

definition reported_from :: "match_row \<Rightarrow> match_summary \<Rightarrow> bool" where
  "reported_from row s =
     (match_id s = row_id row \<and> match_direction s = row_direction row \<and>
      detour_minutes s = one_decimal (row_detour_minutes row) \<and>
      time_overlap_minutes s = row_time_overlap_minutes row \<and>
      rank_score s = one_decimal (row_rank_score row))"

definition raw_score :: "match_row \<Rightarrow> bool" where
  "raw_score row =
     (row_rank_score row =
        js_sub (js_times (row_detour_minutes row) W_DETOUR)
               (js_times (row_time_overlap_minutes row) W_OVERLAP))"

definition consistent :: "run_state \<Rightarrow> bool" where
  "consistent st =
     (list_all2 reported_from (inserted st) (newMatches st) \<and>
      list_all raw_score (inserted st))"

section \<open>A small deployment\<close>

text \<open>
  Users 1 to 3 live in the same building, users 4 and 6 one degree of latitude further
  north, about 69 miles away, and user 5 has no home. Users 1, 2, 3 and 6 have a
  preference for the morning commute, user 4 has none. User 7, a tenth of a degree
  north of user 1, is not in the store and serves to evaluate an estimate. The workplace
  and the thresholds are the defaults, except where the detour threshold is infinite,
  so that no detour exceeds it, and where the workplace is put on the meridian of the
  homes, a tenth of a degree south of user 1.
\<close>

definition example_env :: config where
  "example_env = \<lparr>WORK_LAT = 42.9914, WORK_LNG = - 89.5326,
     DETOUR_THRESHOLD = Num 15, DISTANCE_THRESHOLD = Num 30,
     GOOGLE_MAPS_API_KEY = Some ''test-key''\<rparr>"

definition example_env_lenient :: config where
  "example_env_lenient = \<lparr>WORK_LAT = 42.9914, WORK_LNG = - 89.5326,
     DETOUR_THRESHOLD = PosInf, DISTANCE_THRESHOLD = Num 30,
     GOOGLE_MAPS_API_KEY = None\<rparr>"

definition example_env_meridian :: config where
  "example_env_meridian = \<lparr>WORK_LAT = 42.97, WORK_LNG = - 89.4,
     DETOUR_THRESHOLD = Num 15, DISTANCE_THRESHOLD = Num 30,
     GOOGLE_MAPS_API_KEY = None\<rparr>"

definition example_env_meridian_key :: config where
  "example_env_meridian_key = \<lparr>WORK_LAT = 42.97, WORK_LNG = - 89.4,
     DETOUR_THRESHOLD = Num 15, DISTANCE_THRESHOLD = Num 30,
     GOOGLE_MAPS_API_KEY = Some ''test-key''\<rparr>"

definition user1 :: user_row where
  "user1 = \<lparr>uid = ''user-1'', display_name = ''User'',
     home_lat = Some 43.07, home_lng = Some (- 89.4)\<rparr>"

definition user2 :: user_row where
  "user2 = \<lparr>uid = ''user-2'', display_name = ''Jane'',
     home_lat = Some 43.07, home_lng = Some (- 89.4)\<rparr>"

definition user3 :: user_row where
  "user3 = \<lparr>uid = ''user-3'', display_name = ''Raj'',
     home_lat = Some 43.07, home_lng = Some (- 89.4)\<rparr>"

definition user4 :: user_row where
  "user4 = \<lparr>uid = ''user-4'', display_name = ''Kim'',
     home_lat = Some 44.07, home_lng = Some (- 89.4)\<rparr>"

definition user5 :: user_row where
  "user5 = \<lparr>uid = ''user-5'', display_name = ''Lee'', home_lat = None, home_lng = None\<rparr>"

definition user6 :: user_row where
  "user6 = \<lparr>uid = ''user-6'', display_name = ''Ola'',
     home_lat = Some 44.07, home_lng = Some (- 89.4)\<rparr>"

definition user7 :: user_row where
  "user7 = \<lparr>uid = ''user-7'', display_name = ''Max'',
     home_lat = Some 43.17, home_lng = Some (- 89.4)\<rparr>"

definition example_pref :: "string \<Rightarrow> string \<Rightarrow> pref_row" where
  "example_pref u r = \<lparr>user_id = u, direction = ''TO_WORK'', earliest_time = ''07:00'',
     latest_time = ''07:10'', days_of_week = [0], role = r\<rparr>"

definition example_db :: database where
  "example_db = \<lparr>users = [user1, user2, user3, user4, user5, user6],
     commute_preferences =
       [example_pref ''user-1'' ''EITHER'', example_pref ''user-2'' ''DRIVER'',
        example_pref ''user-3'' ''RIDER'', example_pref ''user-6'' ''DRIVER''],
     match_results = []\<rparr>"

text \<open>
  A routing service that answers the first request (one origin) with the elements
  \<open>e1\<close> and \<open>e2\<close> for the two candidates and ten minutes to the workplace, and the
  second request with ten minutes from each candidate to the workplace.
\<close>

definition ok_element :: "real \<Rightarrow> dm_element" where
  "ok_element seconds = \<lparr>el_status = ''OK'', duration_value = seconds\<rparr>"

definition not_found_element :: dm_element where
  "not_found_element = \<lparr>el_status = ''NOT_FOUND'', duration_value = 0\<rparr>"

definition example_fetch :: "dm_element \<Rightarrow> dm_element \<Rightarrow> fetcher" where
  "example_fetch e1 e2 origins destinations apiKey =
     (if length origins = 1
      then Resolves \<lparr>dm_status = ''OK'', dm_rows = [[e1, e2, ok_element 600]]\<rparr>
      else Resolves \<lparr>dm_status = ''OK'', dm_rows = [[ok_element 600], [ok_element 600]]\<rparr>)"


text \<open>
  A service that finds no route from the candidate to the workplace: the only element of
  its second reply is not \<^verbatim>\<open>OK\<close>.
\<close>

definition no_route_fetch :: fetcher where
  "no_route_fetch origins destinations apiKey =
     (if length destinations = 1
      then Resolves \<lparr>dm_status = ''OK'', dm_rows = [[not_found_element]]\<rparr>
      else Resolves \<lparr>dm_status = ''OK'', dm_rows = [[ok_element 300, ok_element 600]]\<rparr>)"

definition rejecting_fetch :: fetcher where
  "rejecting_fetch origins destinations apiKey = Rejects"

definition example_times :: "dm_element \<Rightarrow> dm_element \<Rightarrow> drive_times" where
  "example_times e1 e2 =
     \<lparr>driverToRiderMin = Some [element_minutes e1, element_minutes e2],
      driverToWorkMin = Minutes 10,
      riderToWorkMin = Some [Minutes 10, Minutes 10],
      requests = [([home user1], [home user2, home user3, (42.9914, - 89.5326)]),
                  ([home user2, home user3], [(42.9914, - 89.5326)])]\<rparr>"

definition example_uuid :: "nat \<Rightarrow> string" where
  "example_uuid n = replicate (Suc n) CHR ''m''"


section \<open>Properties of the primitives\<close>

subsection \<open>Auxiliary facts\<close>




lemma Math_max_Num: "Math_max (Num x) (Num y) = Num (max x y)"
  by (simp add: Math_max_def max_def)

lemma Math_min_Num: "Math_min (Num x) (Num y) = Num (min x y)"
  by (simp add: Math_min_def min_def)

lemma js_sub_Num: "js_sub (Num x) (Num y) = Num (x - y)"
  by (simp add: js_sub_def)










text \<open>
  Claim C9. \<open>rolesCompatible\<close> is false exactly when both roles are \<^verbatim>\<open>RIDER\<close>, it
  does not depend on the order of its arguments, and it is true on the eight other
  pairs of \<^verbatim>\<open>DRIVER\<close>, \<^verbatim>\<open>RIDER\<close>, \<^verbatim>\<open>EITHER\<close>.
\<close>

theorem rolesCompatible_only_rider_rider:
  "(rolesCompatible a b = False) = (a = ''RIDER'' \<and> b = ''RIDER'') \<and>
   rolesCompatible a b = rolesCompatible b a \<and>
   rolesCompatible ''RIDER'' ''RIDER'' = False \<and>
   rolesCompatible ''DRIVER'' ''DRIVER'' = True \<and>
   rolesCompatible ''DRIVER'' ''RIDER'' = True \<and>
   rolesCompatible ''RIDER'' ''DRIVER'' = True \<and>
   rolesCompatible ''EITHER'' ''EITHER'' = True \<and>
   rolesCompatible ''EITHER'' ''DRIVER'' = True \<and>
   rolesCompatible ''DRIVER'' ''EITHER'' = True \<and>
   rolesCompatible ''EITHER'' ''RIDER'' = True \<and>
   rolesCompatible ''RIDER'' ''EITHER'' = True"
  unfolding rolesCompatible_def by auto

text \<open>
  The theorem at the pair \<^verbatim>\<open>RIDER\<close>, \<^verbatim>\<open>EITHER\<close>.
\<close>

theorem rolesCompatible_only_rider_rider_witness:
  "rolesCompatible ''EITHER'' ''RIDER'' = rolesCompatible ''RIDER'' ''EITHER'' \<and>
   rolesCompatible ''RIDER'' ''EITHER'' \<noteq> False"
  using rolesCompatible_only_rider_rider [of "''RIDER''" "''EITHER''"] by simp




text \<open>
  Claim C4. The common days are the days of the first list that occur in the second, so
  as sets the intersection. With no common day the result is zero overlap and no days,
  whatever the four time strings are. Otherwise, when the four strings convert to the
  minutes \<open>eA\<close>, \<open>lA\<close>, \<open>eB\<close>, \<open>lB\<close>, the overlap is
  \<open>max 0 (min lA lB - max eA eB)\<close>; two windows that touch at an endpoint overlap in 0
  minutes.
\<close>

theorem computeOverlap_spec:
  "set (commonDays (computeOverlap rest e1 l1 days1 e2 l2 days2)) = set days1 \<inter> set days2 \<and>
   (set days1 \<inter> set days2 = {} \<longrightarrow>
      computeOverlap rest e1 l1 days1 e2 l2 days2 = \<lparr>overlapMinutes = Num 0, commonDays = []\<rparr>) \<and>
   (set days1 \<inter> set days2 \<noteq> {} \<and>
    timeToMinutes rest e1 = Num eA \<and> timeToMinutes rest l1 = Num lA \<and>
    timeToMinutes rest e2 = Num eB \<and> timeToMinutes rest l2 = Num lB \<longrightarrow>
      overlapMinutes (computeOverlap rest e1 l1 days1 e2 l2 days2) =
        Num (max 0 (min lA lB - max eA eB))) \<and>
   (timeToMinutes rest e1 = Num eA \<and> timeToMinutes rest l1 = Num lA \<and>
    timeToMinutes rest e2 = Num eB \<and> timeToMinutes rest l2 = Num lB \<and>
    eA \<le> lA \<and> eB \<le> lB \<and> (lA = eB \<or> lB = eA) \<longrightarrow>
      overlapMinutes (computeOverlap rest e1 l1 days1 e2 l2 days2) = Num 0)"
proof -
  have eq: "filter (\<lambda>d. d \<in> set days2) days1 = [] \<longleftrightarrow> set days1 \<inter> set days2 = {}"
    unfolding filter_empty_conv by blast
  have 1: "set (commonDays (computeOverlap rest e1 l1 days1 e2 l2 days2)) = set days1 \<inter> set days2"
    using eq by (auto simp: computeOverlap_def Let_def)
  have 2: "computeOverlap rest e1 l1 days1 e2 l2 days2 = \<lparr>overlapMinutes = Num 0, commonDays = []\<rparr>"
    if "set days1 \<inter> set days2 = {}"
    using that eq by (simp add: computeOverlap_def Let_def)
  have 3: "overlapMinutes (computeOverlap rest e1 l1 days1 e2 l2 days2) =
        Num (max 0 (min lA lB - max eA eB))"
    if "set days1 \<inter> set days2 \<noteq> {}"
      "timeToMinutes rest e1 = Num eA" "timeToMinutes rest l1 = Num lA"
      "timeToMinutes rest e2 = Num eB" "timeToMinutes rest l2 = Num lB"
    using that eq
    by (simp add: computeOverlap_def Let_def Math_max_Num Math_min_Num js_sub_Num)
  have 4: "overlapMinutes (computeOverlap rest e1 l1 days1 e2 l2 days2) = Num 0"
    if "timeToMinutes rest e1 = Num eA" "timeToMinutes rest l1 = Num lA"
      "timeToMinutes rest e2 = Num eB" "timeToMinutes rest l2 = Num lB"
      "eA \<le> lA" "eB \<le> lB" "lA = eB \<or> lB = eA"
  proof (cases "set days1 \<inter> set days2 = {}")
    case True
    then show ?thesis using 2 by simp
  next
    case False
    have "max 0 (min lA lB - max eA eB) = 0"
      using that(5-7) by auto
    with 3 [OF False that(1-4)] show ?thesis by simp
  qed
  from 1 2 3 4 show ?thesis by blast
qed

text \<open>
  The theorem on the three schedules of the unit tests: a partial overlap of 30 minutes
  on days 1 and 2, touching windows, and disjoint days.
\<close>

theorem computeOverlap_spec_witness:
  "computeOverlap rest_NaN ''07:00'' ''08:30'' [0, 1, 2] ''08:00'' ''09:00'' [1, 2, 3] =
     \<lparr>overlapMinutes = Num 30, commonDays = [1, 2]\<rparr> \<and>
   overlapMinutes (computeOverlap rest_NaN ''07:00'' ''08:00'' [0] ''08:00'' ''09:00'' [0]) = Num 0 \<and>
   computeOverlap rest_NaN ''07:00'' ''08:00'' [0, 1] ''07:00'' ''08:00'' [2, 3] =
     \<lparr>overlapMinutes = Num 0, commonDays = []\<rparr>"
proof -
  have t: "timeToMinutes rest_NaN ''07:00'' = Num 420" "timeToMinutes rest_NaN ''08:30'' = Num 510"
    "timeToMinutes rest_NaN ''08:00'' = Num 480" "timeToMinutes rest_NaN ''09:00'' = Num 540"
    by (simp_all add: timeToMinutes_def js_Number_def decimal_def is_digit_def digit_val_def)
  have a: "overlapMinutes (computeOverlap rest_NaN ''07:00'' ''08:30'' [0, 1, 2] ''08:00'' ''09:00'' [1, 2, 3]) = Num 30"
    using computeOverlap_spec [of rest_NaN "''07:00''" "''08:30''" "[0, 1, 2]" "''08:00''" "''09:00''" "[1, 2, 3]" 420 510 480 540] t
    by simp
  have a': "commonDays (computeOverlap rest_NaN ''07:00'' ''08:30'' [0, 1, 2] ''08:00'' ''09:00'' [1, 2, 3]) = [1, 2]"
    by (simp add: computeOverlap_def Let_def)
  have b: "overlapMinutes (computeOverlap rest_NaN ''07:00'' ''08:00'' [0] ''08:00'' ''09:00'' [0]) = Num 0"
    using computeOverlap_spec [of rest_NaN "''07:00''" "''08:00''" "[0]" "''08:00''" "''09:00''" "[0]" 420 480 480 540] t
    by simp
  have c: "computeOverlap rest_NaN ''07:00'' ''08:00'' [0, 1] ''07:00'' ''08:00'' [2, 3] =
     \<lparr>overlapMinutes = Num 0, commonDays = []\<rparr>"
    using computeOverlap_spec [of rest_NaN "''07:00''" "''08:00''" "[0, 1]" "''07:00''" "''08:00''" "[2, 3]"]
    by simp
  from a a' b c show ?thesis by simp
qed

subsection \<open>The distance formula\<close>

lemma sin_half_sq: "sin (x / 2) * sin (x / 2) = (1 - cos x) / (2::real)"
proof -
  have "cos x = cos (x / 2 + x / 2)" by simp
  also have "\<dots> = cos (x / 2) * cos (x / 2) - sin (x / 2) * sin (x / 2)"
    by (rule cos_add)
  finally have "cos x = cos (x / 2) * cos (x / 2) - sin (x / 2) * sin (x / 2)" .
  moreover have "sin (x / 2) * sin (x / 2) + cos (x / 2) * cos (x / 2) = 1"
    using sin_cos_squared_add [of "x / 2"] by (simp add: power2_eq_square)
  ultimately show ?thesis by simp
qed

lemma haversine_a_cos:
  "1 - 2 * haversine_a lat1 lng1 lat2 lng2 =
     sin (lat1 * pi / 180) * sin (lat2 * pi / 180) +
     cos (lat1 * pi / 180) * cos (lat2 * pi / 180) * cos ((lng2 - lng1) * pi / 180)"
proof -
  define p where "p = lat1 * pi / 180"
  define q where "q = lat2 * pi / 180"
  define d where "d = (lng2 - lng1) * pi / 180"
  have dl: "(lat2 - lat1) * pi / 180 = q - p"
    by (simp add: p_def q_def algebra_simps diff_divide_distrib)
  have a: "haversine_a lat1 lng1 lat2 lng2 =
      sin ((q - p) / 2) * sin ((q - p) / 2) + cos p * cos q * (sin (d / 2) * sin (d / 2))"
    unfolding haversine_a_def Let_def dl unfolding p_def q_def d_def
    by (simp only: mult.assoc)
  have "1 - 2 * haversine_a lat1 lng1 lat2 lng2 =
      cos (q - p) - cos p * cos q + cos p * cos q * cos d"
    unfolding a sin_half_sq by (simp add: field_simps)
  also have "\<dots> = sin p * sin q + cos p * cos q * cos d"
    by (simp add: cos_diff algebra_simps)
  finally show ?thesis by (simp add: p_def q_def d_def)
qed

lemma haversine_a_range:
  "0 \<le> haversine_a lat1 lng1 lat2 lng2 \<and> haversine_a lat1 lng1 lat2 lng2 \<le> 1"
proof -
  define p where "p = lat1 * pi / 180"
  define q where "q = lat2 * pi / 180"
  define d where "d = (lng2 - lng1) * pi / 180"
  define s where "s = (1 - cos d) / 2"
  define A where "A = (1 - cos (q - p)) / 2"
  define B where "B = (1 + cos (q + p)) / 2"
  have dl: "(lat2 - lat1) * pi / 180 = q - p"
    by (simp add: p_def q_def algebra_simps diff_divide_distrib)
  have a: "haversine_a lat1 lng1 lat2 lng2 =
      sin ((q - p) / 2) * sin ((q - p) / 2) + cos p * cos q * (sin (d / 2) * sin (d / 2))"
    unfolding haversine_a_def Let_def dl unfolding p_def q_def d_def
    by (simp only: mult.assoc)
  have BA: "B - A = cos p * cos q"
    by (simp add: A_def B_def cos_add cos_diff field_simps)
  have "haversine_a lat1 lng1 lat2 lng2 = A + cos p * cos q * s"
    unfolding a sin_half_sq A_def s_def by simp
  also have "\<dots> = A + (B - A) * s"
    by (simp only: BA)
  also have "\<dots> = (1 - s) * A + s * B"
    by (simp add: algebra_simps)
  finally have a2: "haversine_a lat1 lng1 lat2 lng2 = (1 - s) * A + s * B" .
  have s: "0 \<le> s" "s \<le> 1"
    using cos_le_one [of d] cos_ge_minus_one [of d] by (simp_all add: s_def)
  have A: "0 \<le> A" "A \<le> 1"
    using cos_le_one [of "q - p"] cos_ge_minus_one [of "q - p"] by (simp_all add: A_def)
  have "0 \<le> 1 + cos (q + p)"
    using cos_ge_minus_one [of "q + p"] by linarith
  then have B: "0 \<le> B" "B \<le> 1"
    using cos_le_one [of "q + p"] by (simp_all add: B_def)
  have lo: "0 \<le> (1 - s) * A + s * B"
    using s A B by (intro add_nonneg_nonneg mult_nonneg_nonneg) simp_all
  have "(1 - s) * A \<le> (1 - s) * 1" using s A by (intro mult_left_mono) simp_all
  moreover have "s * B \<le> s * 1" using s B by (intro mult_left_mono) simp_all
  ultimately have hi: "(1 - s) * A + s * B \<le> 1" by simp
  from lo hi show ?thesis unfolding a2 by simp
qed

lemma atan2_sqrt_arccos:
  assumes "0 \<le> a" "a \<le> 1"
  shows "2 * Math_atan2 (sqrt a) (sqrt (1 - a)) = arccos (1 - 2 * a)"
proof -
  define h where "h = arccos (1 - 2 * a) / 2"
  have r: "- 1 \<le> 1 - 2 * a" "1 - 2 * a \<le> 1" using assms by simp_all
  have h0: "0 \<le> h" "h \<le> pi / 2"
    using arccos_lbound [OF r] arccos_ubound [OF r] by (simp_all add: h_def)
  have c: "cos (2 * h) = 1 - 2 * a"
    using cos_arccos [OF r] by (simp add: h_def)
  have sh: "0 \<le> sin h" using h0 by (intro sin_ge_zero) (simp_all add: pi_ge_zero)
  have ch: "0 \<le> cos h" using h0 by (intro cos_ge_zero) simp_all
  have sq: "sin h * sin h + cos h * cos h = 1"
    using sin_cos_squared_add [of h] by (simp add: power2_eq_square)
  have "cos (2 * h) = cos h * cos h - sin h * sin h"
    using cos_add [of h h] by simp
  with c sq have s2: "sin h * sin h = a" and c2: "cos h * cos h = 1 - a"
    by simp_all
  have ss: "sqrt a = sin h"
    using s2 sh by (metis real_sqrt_abs2 abs_of_nonneg)
  have cs: "sqrt (1 - a) = cos h"
    using c2 ch by (metis real_sqrt_abs2 abs_of_nonneg)
  have "Math_atan2 (sin h) (cos h) = h"
  proof (cases "0 < cos h")
    case True
    have "h < pi / 2"
    proof (rule ccontr)
      assume "\<not> h < pi / 2"
      with h0 have "h = pi / 2" by simp
      with True show False by simp
    qed
    then have "arctan (tan h) = h" using h0 by (intro arctan_tan) simp_all
    with True show ?thesis by (simp add: Math_atan2_def tan_def)
  next
    case False
    with ch have z: "cos h = 0" by simp
    with sq have "sin h * sin h = 1" by simp
    with sh have s1: "sin h = 1"
      by (metis abs_of_nonneg real_sqrt_abs2 real_sqrt_one)
    have "h = pi / 2"
    proof (rule ccontr)
      assume "h \<noteq> pi / 2"
      with h0 have "h < pi / 2" by simp
      with h0 have "0 < cos h" by (intro cos_gt_zero_pi) simp_all
      with z show False by simp
    qed
    moreover have "Math_atan2 1 0 = pi / 2" by (simp add: Math_atan2_def)
    ultimately show ?thesis unfolding z s1 by simp
  qed
  then show ?thesis unfolding ss cs by (simp add: h_def)
qed

lemma haversine_angular:
  "haversine lat1 lng1 lat2 lng2 = 3959 * angular_separation lat1 lng1 lat2 lng2"
proof -
  have "2 * Math_atan2 (sqrt (haversine_a lat1 lng1 lat2 lng2))
          (sqrt (1 - haversine_a lat1 lng1 lat2 lng2)) =
        arccos (1 - 2 * haversine_a lat1 lng1 lat2 lng2)"
    using haversine_a_range [of lat1 lng1 lat2 lng2] by (intro atan2_sqrt_arccos) simp_all
  then show ?thesis
    unfolding haversine_def Let_def angular_separation_def haversine_a_cos by simp
qed

lemma haversine_same: "haversine lat lng lat lng = 0"
  by (simp add: haversine_def haversine_a_def Math_atan2_def)

lemma haversine_sym: "haversine lat1 lng1 lat2 lng2 = haversine lat2 lng2 lat1 lng1"
proof -
  have e: "(lng2 - lng1) * pi / 180 = - ((lng1 - lng2) * pi / 180)"
    by (simp add: field_simps)
  have "cos ((lng2 - lng1) * pi / 180) = cos ((lng1 - lng2) * pi / 180)"
    unfolding e by (rule cos_minus)
  then show ?thesis
    unfolding haversine_angular angular_separation_def by (simp add: mult.commute)
qed

section \<open>Properties of the compute run\<close>

subsection \<open>Detour and lookup\<close>

lemma estimated_detour_formula:
  "estimated_detour env currentUser other =
     Num (max 0
       ((haversine (coord (home_lat currentUser)) (coord (home_lng currentUser))
           (coord (home_lat other)) (coord (home_lng other)) +
         haversine (coord (home_lat other)) (coord (home_lng other)) (WORK_LAT env) (WORK_LNG env) -
         haversine (coord (home_lat currentUser)) (coord (home_lng currentUser))
           (WORK_LAT env) (WORK_LNG env)) * 2))"
  by (simp add: estimated_detour_def Let_def Math_max_Num)

lemma detour_fallback:
  "exact_unavailable dt i \<Longrightarrow>
   detourMinutes env dt currentUser i other = estimated_detour env currentUser other"
  by (auto simp: exact_unavailable_def leg_def detourMinutes_def split: option.splits)

lemma no_key_no_lookup:
  "\<not> truthy_key (GOOGLE_MAPS_API_KEY env) \<Longrightarrow>
   fetch_drive_times env fetch currentUser candidates =
     \<lparr>driverToRiderMin = None, driverToWorkMin = Null, riderToWorkMin = None, requests = []\<rparr>"
  by (auto simp: fetch_drive_times_def truthy_key_def Let_def split: option.splits)

lemma issued_compute:
  "issued (compute env fetch rest uuidv4 db userId) = [] \<or>
   (\<exists>currentUser. requester db userId = Some currentUser \<and>
      issued (compute env fetch rest uuidv4 db userId) =
        requests (fetch_drive_times env fetch currentUser
                    (prefilter env currentUser (other_users db userId))))"
  by (auto simp: compute_def Let_def split: option.splits)

lemma requests_second_call:
  "set (requests (second_call env fetch apiKey candidates dt)) =
     set (requests dt) \<union> {(map home candidates, [(WORK_LAT env, WORK_LNG env)])}"
  by (auto simp: second_call_def Let_def split: attempt.splits option.splits)

lemma requests_fetch_drive_times:
  "(os, ds) \<in> set (requests (fetch_drive_times env fetch currentUser candidates)) \<Longrightarrow>
   p \<in> set os \<union> set ds \<Longrightarrow>
   p = (WORK_LAT env, WORK_LNG env) \<or> p = home currentUser \<or> p \<in> home ` set candidates"
  by (auto simp: fetch_drive_times_def Let_def requests_second_call
           split: option.splits if_splits attempt.splits list.splits)

lemma lookup_failed_call1:
  assumes "GOOGLE_MAPS_API_KEY env = Some k"
    and "fetch [home currentUser] (map home candidates @ [(WORK_LAT env, WORK_LNG env)]) k = Rejects \<or>
         (\<exists>d. fetch [home currentUser] (map home candidates @ [(WORK_LAT env, WORK_LNG env)]) k = Resolves d \<and>
              dm_status d \<noteq> ''OK'')"
  shows "driverToRiderMin (fetch_drive_times env fetch currentUser candidates) = None"
  using assms
  by (auto simp: fetch_drive_times_def second_call_def getDistanceMatrixMinutes_def Let_def
           split: attempt.splits option.splits dm_reply.splits)

lemma riderToWorkMin_second_call:
  "fetch (map home candidates) [(WORK_LAT env, WORK_LNG env)] k = Rejects \<or>
   (\<exists>d. fetch (map home candidates) [(WORK_LAT env, WORK_LNG env)] k = Resolves d \<and>
        dm_status d \<noteq> ''OK'') \<Longrightarrow>
   riderToWorkMin (second_call env fetch k candidates dt) = riderToWorkMin dt"
  by (auto simp: second_call_def getDistanceMatrixMinutes_def Let_def)

lemma lookup_failed_call2:
  assumes "GOOGLE_MAPS_API_KEY env = Some k"
    and "fetch (map home candidates) [(WORK_LAT env, WORK_LNG env)] k = Rejects \<or>
         (\<exists>d. fetch (map home candidates) [(WORK_LAT env, WORK_LNG env)] k = Resolves d \<and>
              dm_status d \<noteq> ''OK'')"
  shows "riderToWorkMin (fetch_drive_times env fetch currentUser candidates) = None"
proof -
  have "riderToWorkMin (second_call env fetch k candidates dt) = riderToWorkMin dt" for dt
    using assms(2) by (rule riderToWorkMin_second_call)
  with assms(1) show ?thesis
    by (auto simp: fetch_drive_times_def Let_def
             split: attempt.splits option.splits list.splits)
qed

lemma second_call_keeps:
  "driverToRiderMin (second_call env fetch k candidates dt) = driverToRiderMin dt"
  "driverToWorkMin (second_call env fetch k candidates dt) = driverToWorkMin dt"
  by (simp_all add: second_call_def Let_def split: attempt.splits option.splits)

lemma first_call_cells:
  assumes "GOOGLE_MAPS_API_KEY env = Some k" and "k \<noteq> []" and "candidates \<noteq> []"
    and "fetch [home currentUser] (map home candidates @ [(WORK_LAT env, WORK_LNG env)]) k =
           Resolves \<lparr>dm_status = ''OK'', dm_rows = row1 # further\<rparr>"
  shows "driverToRiderMin (fetch_drive_times env fetch currentUser candidates) =
           Some (take (length candidates) (map element_minutes row1))"
    and "driverToWorkMin (fetch_drive_times env fetch currentUser candidates) =
           cell_at (map element_minutes row1) (length candidates)"
  using assms
  by (simp_all add: fetch_drive_times_def getDistanceMatrixMinutes_def truthy_key_def Let_def
        second_call_keeps)

lemma second_call_cells:
  assumes "fetch (map home candidates) [(WORK_LAT env, WORK_LNG env)] k =
           Resolves \<lparr>dm_status = ''OK'', dm_rows = rows2\<rparr>"
  shows "riderToWorkMin (second_call env fetch k candidates dt) =
           Some (map (\<lambda>row. cell_at (map element_minutes row) 0) rows2)"
  using assms by (simp add: second_call_def getDistanceMatrixMinutes_def Let_def comp_def)

lemma fetch_drive_times_rider:
  assumes "GOOGLE_MAPS_API_KEY env = Some k"
    and "fetch (map home candidates) [(WORK_LAT env, WORK_LNG env)] k =
           Resolves \<lparr>dm_status = ''OK'', dm_rows = rows2\<rparr>"
  shows "riderToWorkMin (fetch_drive_times env fetch currentUser candidates) = None \<or>
         riderToWorkMin (fetch_drive_times env fetch currentUser candidates) =
           Some (map (\<lambda>row. cell_at (map element_minutes row) 0) rows2)"
proof -
  have "riderToWorkMin (second_call env fetch k candidates dt) =
           Some (map (\<lambda>row. cell_at (map element_minutes row) 0) rows2)" for dt
    using assms(2) by (rule second_call_cells)
  with assms(1) show ?thesis
    by (auto simp: fetch_drive_times_def Let_def
             split: attempt.splits option.splits list.splits)
qed

lemma candidate_element_not_ok:
  assumes "GOOGLE_MAPS_API_KEY env = Some k"
    and "fetch [home currentUser] (map home candidates @ [(WORK_LAT env, WORK_LNG env)]) k =
           Resolves \<lparr>dm_status = ''OK'', dm_rows = row1 # further\<rparr>"
    and "i < length candidates" "i < length row1" "el_status (row1 ! i) \<noteq> ''OK''"
  shows "exact_unavailable (fetch_drive_times env fetch currentUser candidates) i"
proof (cases "k = []")
  case True
  with assms(1) have "\<not> truthy_key (GOOGLE_MAPS_API_KEY env)" by (simp add: truthy_key_def)
  then show ?thesis by (simp add: no_key_no_lookup exact_unavailable_def leg_def)
next
  case False
  from assms(3) have ne: "candidates \<noteq> []" by auto
  have "driverToRiderMin (fetch_drive_times env fetch currentUser candidates) =
           Some (take (length candidates) (map element_minutes row1))"
    using assms(1) False ne assms(2) by (rule first_call_cells)
  then show ?thesis
    using assms(3-5) by (simp add: exact_unavailable_def leg_def cell_at_def element_minutes_def)
qed

lemma workplace_element_not_ok:
  assumes "GOOGLE_MAPS_API_KEY env = Some k"
    and "fetch [home currentUser] (map home candidates @ [(WORK_LAT env, WORK_LNG env)]) k =
           Resolves \<lparr>dm_status = ''OK'', dm_rows = row1 # further\<rparr>"
    and "length candidates < length row1" "el_status (row1 ! length candidates) \<noteq> ''OK''"
  shows "exact_unavailable (fetch_drive_times env fetch currentUser candidates) i"
proof (cases "k = [] \<or> candidates = []")
  case True
  with assms(1) have "fetch_drive_times env fetch currentUser candidates =
     \<lparr>driverToRiderMin = None, driverToWorkMin = Null, riderToWorkMin = None, requests = []\<rparr>"
    by (auto simp: fetch_drive_times_def truthy_key_def Let_def)
  then show ?thesis by (simp add: exact_unavailable_def)
next
  case False
  then have "k \<noteq> []" "candidates \<noteq> []" by simp_all
  with assms(1) have "driverToWorkMin (fetch_drive_times env fetch currentUser candidates) =
           cell_at (map element_minutes row1) (length candidates)"
    using assms(2) by (intro first_call_cells(2) [where k = k]) simp_all
  then show ?thesis
    using assms(3,4) by (simp add: exact_unavailable_def cell_at_def element_minutes_def)
qed

lemma rider_element_not_ok:
  assumes "GOOGLE_MAPS_API_KEY env = Some k"
    and "fetch (map home candidates) [(WORK_LAT env, WORK_LNG env)] k =
           Resolves \<lparr>dm_status = ''OK'', dm_rows = rows2\<rparr>"
    and "i < length rows2" "rows2 ! i = e2 # rest2" "el_status e2 \<noteq> ''OK''"
  shows "exact_unavailable (fetch_drive_times env fetch currentUser candidates) i"
proof -
  have "riderToWorkMin (fetch_drive_times env fetch currentUser candidates) = None \<or>
         riderToWorkMin (fetch_drive_times env fetch currentUser candidates) =
           Some (map (\<lambda>row. cell_at (map element_minutes row) 0) rows2)"
    using assms(1,2) by (rule fetch_drive_times_rider)
  then show ?thesis
    using assms(3-5)
    by (auto simp: exact_unavailable_def leg_def cell_at_def element_minutes_def)
qed

lemma all_failed_unavailable:
  assumes "GOOGLE_MAPS_API_KEY env = Some k"
    and "fetch [home currentUser] (map home candidates @ [(WORK_LAT env, WORK_LNG env)]) k = Rejects \<or>
         (\<exists>d. fetch [home currentUser] (map home candidates @ [(WORK_LAT env, WORK_LNG env)]) k = Resolves d \<and>
              dm_status d \<noteq> ''OK'') \<or>
         fetch (map home candidates) [(WORK_LAT env, WORK_LNG env)] k = Rejects \<or>
         (\<exists>d. fetch (map home candidates) [(WORK_LAT env, WORK_LNG env)] k = Resolves d \<and>
              dm_status d \<noteq> ''OK'')"
  shows "exact_unavailable (fetch_drive_times env fetch currentUser candidates) i"
proof -
  let ?dt = "fetch_drive_times env fetch currentUser candidates"
  from assms(2) have "driverToRiderMin ?dt = None \<or> riderToWorkMin ?dt = None"
  proof (elim disjE)
    assume "fetch [home currentUser] (map home candidates @ [(WORK_LAT env, WORK_LNG env)]) k = Rejects"
    then have "driverToRiderMin ?dt = None"
      using assms(1) by (intro lookup_failed_call1 [where k = k]) simp_all
    then show ?thesis ..
  next
    assume "\<exists>d. fetch [home currentUser] (map home candidates @ [(WORK_LAT env, WORK_LNG env)]) k = Resolves d \<and>
              dm_status d \<noteq> ''OK''"
    then have "driverToRiderMin ?dt = None"
      using assms(1) by (intro lookup_failed_call1 [where k = k]) simp_all
    then show ?thesis ..
  next
    assume "fetch (map home candidates) [(WORK_LAT env, WORK_LNG env)] k = Rejects"
    then have "riderToWorkMin ?dt = None"
      using assms(1) by (intro lookup_failed_call2 [where k = k]) simp_all
    then show ?thesis ..
  next
    assume "\<exists>d. fetch (map home candidates) [(WORK_LAT env, WORK_LNG env)] k = Resolves d \<and>
              dm_status d \<noteq> ''OK''"
    then have "riderToWorkMin ?dt = None"
      using assms(1) by (intro lookup_failed_call2 [where k = k]) simp_all
    then show ?thesis ..
  qed
  then show ?thesis
    by (auto simp: exact_unavailable_def leg_def)
qed

lemma detourMinutes_cases:
  "detourMinutes env dt currentUser i other =
     (if exact_unavailable dt i then estimated_detour env currentUser other
      else Math_max (Num 0)
             (js_sub (js_add (cell_num (leg (driverToRiderMin dt) i))
                             (cell_num (leg (riderToWorkMin dt) i)))
                (cell_num (driverToWorkMin dt))))"
  by (auto simp: detourMinutes_def exact_unavailable_def leg_def split: option.splits)

subsection \<open>The loops\<close>

lemma inserted_pair_step:
  "row \<in> set (inserted (pair_step rest uuidv4 userId other detour myPref st otherPref)) \<Longrightarrow>
   row \<in> set (inserted st) \<or>
   (user_b_id row = uid other \<and> user_a_id row = userId \<and> row_detour_minutes row = detour)"
  by (auto simp: pair_step_def Let_def split: if_splits)

lemma inserted_inner_loop:
  "row \<in> set (inserted (foldl (pair_step rest uuidv4 userId other detour myPref) st otherPrefs)) \<Longrightarrow>
   row \<in> set (inserted st) \<or>
   (user_b_id row = uid other \<and> user_a_id row = userId \<and> row_detour_minutes row = detour)"
proof (induction otherPrefs arbitrary: st)
  case Nil
  then show ?case by simp
next
  case (Cons p ps)
  from Cons.IH [of "pair_step rest uuidv4 userId other detour myPref st p"] Cons.prems
  show ?case by (auto dest: inserted_pair_step)
qed

lemma inserted_pair_loops:
  "row \<in> set (inserted (pair_loops rest uuidv4 userId other detour myPrefs otherPrefs st)) \<Longrightarrow>
   row \<in> set (inserted st) \<or>
   (user_b_id row = uid other \<and> user_a_id row = userId \<and> row_detour_minutes row = detour)"
  unfolding pair_loops_def
proof (induction myPrefs arbitrary: st)
  case Nil
  then show ?case by simp
next
  case (Cons p ps)
  from Cons.IH [of "foldl (pair_step rest uuidv4 userId other detour p) st otherPrefs"] Cons.prems
  show ?case by (auto dest: inserted_inner_loop)
qed

lemma candidate_step_gated:
  "js_gt (detourMinutes env dt currentUser i other) (DETOUR_THRESHOLD env) \<Longrightarrow>
   candidate_step env rest uuidv4 db userId dt currentUser myPrefs st (i, other) = st"
  by (simp add: candidate_step_def)

lemma inserted_candidate_step:
  "row \<in> set (inserted (candidate_step env rest uuidv4 db userId dt currentUser myPrefs st (i, other))) \<Longrightarrow>
   row \<in> set (inserted st) \<or>
   (user_b_id row = uid other \<and>
    row_detour_minutes row = detourMinutes env dt currentUser i other \<and>
    \<not> js_gt (detourMinutes env dt currentUser i other) (DETOUR_THRESHOLD env))"
  by (auto simp: candidate_step_def Let_def split: if_splits dest: inserted_pair_loops)

lemma inserted_candidate_fold:
  "row \<in> set (inserted (foldl (candidate_step env rest uuidv4 db userId dt currentUser myPrefs) st cs)) \<Longrightarrow>
   row \<in> set (inserted st) \<or>
   (\<exists>(i, other) \<in> set cs. user_b_id row = uid other \<and>
       row_detour_minutes row = detourMinutes env dt currentUser i other \<and>
       \<not> js_gt (detourMinutes env dt currentUser i other) (DETOUR_THRESHOLD env))"
proof (induction cs arbitrary: st)
  case Nil
  then show ?case by simp
next
  case (Cons c cs)
  obtain i other where c: "c = (i, other)" by (cases c)
  from Cons.IH [of "candidate_step env rest uuidv4 db userId dt currentUser myPrefs st c"] Cons.prems
  have "row \<in> set (inserted (candidate_step env rest uuidv4 db userId dt currentUser myPrefs st c)) \<or>
   (\<exists>(i, other) \<in> set cs. user_b_id row = uid other \<and>
       row_detour_minutes row = detourMinutes env dt currentUser i other \<and>
       \<not> js_gt (detourMinutes env dt currentUser i other) (DETOUR_THRESHOLD env))"
    by simp
  then show ?case
    using inserted_candidate_step [of row env rest uuidv4 db userId dt currentUser myPrefs st i other]
    unfolding c by auto
qed

lemma in_set_zip_upt:
  "(i, x) \<in> set (zip [0 ..< length xs] xs) \<Longrightarrow> i < length xs \<and> xs ! i = x"
  by (auto simp: in_set_zip)

lemma inserted_candidate_loop:
  assumes "row \<in> set (inserted (candidate_loop env rest uuidv4 db userId dt currentUser myPrefs candidates))"
  shows "\<exists>j < length candidates. user_b_id row = uid (candidates ! j) \<and>
           row_detour_minutes row = detourMinutes env dt currentUser j (candidates ! j) \<and>
           \<not> js_gt (detourMinutes env dt currentUser j (candidates ! j)) (DETOUR_THRESHOLD env)"
proof -
  from assms obtain j other where "(j, other) \<in> set (zip [0 ..< length candidates] candidates)"
    and r: "user_b_id row = uid other"
      "row_detour_minutes row = detourMinutes env dt currentUser j other"
      "\<not> js_gt (detourMinutes env dt currentUser j other) (DETOUR_THRESHOLD env)"
    unfolding candidate_loop_def
    by (auto dest!: inserted_candidate_fold)
  then have "j < length candidates" "candidates ! j = other"
    by (auto dest: in_set_zip_upt)
  with r show ?thesis by blast
qed


lemma consistent_pair_step:
  "consistent st \<Longrightarrow> consistent (pair_step rest uuidv4 userId other detour myPref st otherPref)"
  by (auto simp: consistent_def pair_step_def Let_def reported_from_def raw_score_def
           intro!: list_all2_appendI)

lemma consistent_inner_loop:
  "consistent st \<Longrightarrow>
   consistent (foldl (pair_step rest uuidv4 userId other detour myPref) st otherPrefs)"
  by (induction otherPrefs arbitrary: st) (simp_all add: consistent_pair_step)

lemma consistent_pair_loops:
  "consistent st \<Longrightarrow>
   consistent (pair_loops rest uuidv4 userId other detour myPrefs otherPrefs st)"
  unfolding pair_loops_def
  by (induction myPrefs arbitrary: st) (simp_all add: consistent_inner_loop)

lemma consistent_candidate_step:
  "consistent st \<Longrightarrow>
   consistent (candidate_step env rest uuidv4 db userId dt currentUser myPrefs st c)"
  by (cases c) (simp add: candidate_step_def Let_def consistent_pair_loops)

lemma consistent_candidate_fold:
  "consistent st \<Longrightarrow>
   consistent (foldl (candidate_step env rest uuidv4 db userId dt currentUser myPrefs) st cs)"
  by (induction cs arbitrary: st) (simp_all add: consistent_candidate_step)

lemma consistent_candidate_loop:
  "consistent (candidate_loop env rest uuidv4 db userId dt currentUser myPrefs candidates)"
  unfolding candidate_loop_def
  by (rule consistent_candidate_fold) (simp add: consistent_def)

lemma row_pair_step:
  "row \<in> set (inserted (pair_step rest uuidv4 userId other detour myPref st otherPref)) \<Longrightarrow>
   row \<in> set (inserted st) \<or> row_of_pair rest userId other detour myPref otherPref row"
  by (auto simp: pair_step_def row_of_pair_def Let_def split: if_splits)

lemma row_inner_loop:
  "row \<in> set (inserted (foldl (pair_step rest uuidv4 userId other detour myPref) st otherPrefs)) \<Longrightarrow>
   row \<in> set (inserted st) \<or>
   (\<exists>otherPref \<in> set otherPrefs. row_of_pair rest userId other detour myPref otherPref row)"
proof (induction otherPrefs arbitrary: st)
  case Nil
  then show ?case by simp
next
  case (Cons p ps)
  from Cons.IH [of "pair_step rest uuidv4 userId other detour myPref st p"] Cons.prems
  show ?case by (auto dest: row_pair_step)
qed

lemma row_pair_loops:
  "row \<in> set (inserted (pair_loops rest uuidv4 userId other detour myPrefs otherPrefs st)) \<Longrightarrow>
   row \<in> set (inserted st) \<or>
   (\<exists>myPref \<in> set myPrefs. \<exists>otherPref \<in> set otherPrefs.
      row_of_pair rest userId other detour myPref otherPref row)"
  unfolding pair_loops_def
proof (induction myPrefs arbitrary: st)
  case Nil
  then show ?case by simp
next
  case (Cons p ps)
  from Cons.IH [of "foldl (pair_step rest uuidv4 userId other detour p) st otherPrefs"] Cons.prems
  show ?case by (auto dest: row_inner_loop)
qed

lemma row_candidate_step:
  "row \<in> set (inserted (candidate_step env rest uuidv4 db userId dt currentUser myPrefs st (i, other))) \<Longrightarrow>
   row \<in> set (inserted st) \<or>
   (\<not> js_gt (detourMinutes env dt currentUser i other) (DETOUR_THRESHOLD env) \<and>
    (\<exists>myPref \<in> set myPrefs.
       \<exists>otherPref \<in> set (filter (\<lambda>p. user_id p = uid other) (commute_preferences db)).
         row_of_pair rest userId other (detourMinutes env dt currentUser i other)
           myPref otherPref row))"
  by (auto simp: candidate_step_def Let_def split: if_splits dest!: row_pair_loops)

lemma row_candidate_fold:
  "row \<in> set (inserted (foldl (candidate_step env rest uuidv4 db userId dt currentUser myPrefs) st cs)) \<Longrightarrow>
   row \<in> set (inserted st) \<or>
   (\<exists>(i, other) \<in> set cs.
      \<not> js_gt (detourMinutes env dt currentUser i other) (DETOUR_THRESHOLD env) \<and>
      (\<exists>myPref \<in> set myPrefs.
         \<exists>otherPref \<in> set (filter (\<lambda>p. user_id p = uid other) (commute_preferences db)).
           row_of_pair rest userId other (detourMinutes env dt currentUser i other)
             myPref otherPref row))"
proof (induction cs arbitrary: st)
  case Nil
  then show ?case by simp
next
  case (Cons c cs)
  obtain i other where c: "c = (i, other)" by (cases c)
  from Cons.IH [of "candidate_step env rest uuidv4 db userId dt currentUser myPrefs st c"] Cons.prems
  have "row \<in> set (inserted (candidate_step env rest uuidv4 db userId dt currentUser myPrefs st c)) \<or>
   (\<exists>(i, other) \<in> set cs.
      \<not> js_gt (detourMinutes env dt currentUser i other) (DETOUR_THRESHOLD env) \<and>
      (\<exists>myPref \<in> set myPrefs.
         \<exists>otherPref \<in> set (filter (\<lambda>p. user_id p = uid other) (commute_preferences db)).
           row_of_pair rest userId other (detourMinutes env dt currentUser i other)
             myPref otherPref row))"
    by simp
  then show ?case
    using row_candidate_step [of row env rest uuidv4 db userId dt currentUser myPrefs st i other]
    unfolding c by auto
qed

lemma row_candidate_loop:
  assumes "row \<in> set (inserted (candidate_loop env rest uuidv4 db userId dt currentUser myPrefs candidates))"
  shows "\<exists>j < length candidates.
           \<not> js_gt (detourMinutes env dt currentUser j (candidates ! j)) (DETOUR_THRESHOLD env) \<and>
           (\<exists>myPref \<in> set myPrefs.
              \<exists>otherPref \<in> set (filter (\<lambda>p. user_id p = uid (candidates ! j)) (commute_preferences db)).
                row_of_pair rest userId (candidates ! j)
                  (detourMinutes env dt currentUser j (candidates ! j)) myPref otherPref row)"
proof -
  from assms obtain j other where m: "(j, other) \<in> set (zip [0 ..< length candidates] candidates)"
    and r: "\<not> js_gt (detourMinutes env dt currentUser j other) (DETOUR_THRESHOLD env)"
      "\<exists>myPref \<in> set myPrefs.
         \<exists>otherPref \<in> set (filter (\<lambda>p. user_id p = uid other) (commute_preferences db)).
           row_of_pair rest userId other (detourMinutes env dt currentUser j other)
             myPref otherPref row"
  proof -
    from assms have "row \<in> set (inserted \<lparr>inserted = [], newMatches = []\<rparr>) \<or>
      (\<exists>(i, other) \<in> set (zip [0 ..< length candidates] candidates).
        \<not> js_gt (detourMinutes env dt currentUser i other) (DETOUR_THRESHOLD env) \<and>
        (\<exists>myPref \<in> set myPrefs.
           \<exists>otherPref \<in> set (filter (\<lambda>p. user_id p = uid other) (commute_preferences db)).
             row_of_pair rest userId other (detourMinutes env dt currentUser i other)
               myPref otherPref row))"
      unfolding candidate_loop_def by (rule row_candidate_fold)
    then have "\<exists>(i, other) \<in> set (zip [0 ..< length candidates] candidates).
        \<not> js_gt (detourMinutes env dt currentUser i other) (DETOUR_THRESHOLD env) \<and>
        (\<exists>myPref \<in> set myPrefs.
           \<exists>otherPref \<in> set (filter (\<lambda>p. user_id p = uid other) (commute_preferences db)).
             row_of_pair rest userId other (detourMinutes env dt currentUser i other)
               myPref otherPref row)"
      by simp
    then show ?thesis using that by blast
  qed
  from m have "j < length candidates" "candidates ! j = other"
    by (auto dest: in_set_zip_upt)
  with r show ?thesis by blast
qed

subsection \<open>The sort\<close>

lemma mset_sort_insert: "mset (sort_insert x ys) = add_mset x (mset ys)"
  by (induction ys) auto

lemma mset_insertion: "mset (foldr sort_insert xs []) = mset xs"
  by (induction xs) (auto simp: mset_sort_insert)

lemma set_sort_insert: "set (sort_insert x ys) = insert x (set ys)"
  by (induction ys) auto

lemma mset_listed_js_sort: "mset (listed (js_sort xs)) = mset xs"
  by (simp add: js_sort_def mset_insertion)

lemma length_listed_js_sort: "length (listed (js_sort xs)) = length xs"
  using mset_listed_js_sort [of xs] by (metis size_mset)

lemma gt_zero_iff_less:
  "a \<noteq> NaN \<Longrightarrow> b \<noteq> NaN \<Longrightarrow> js_gt (js_sub a b) (Num 0) = js_less b a"
  by (cases a; cases b) (simp_all add: js_gt_def js_sub_def)

lemma js_less_asym: "js_less a b \<Longrightarrow> \<not> js_less b a"
  by (cases a; cases b) simp_all

lemma not_less_trans:
  "a \<noteq> NaN \<Longrightarrow> b \<noteq> NaN \<Longrightarrow> c \<noteq> NaN \<Longrightarrow> \<not> js_less b a \<Longrightarrow> \<not> js_less c b \<Longrightarrow> \<not> js_less c a"
  by (cases a; cases b; cases c) simp_all

lemma sorted_sort_insert:
  assumes "rank_score x \<noteq> NaN" "\<forall>y \<in> set ys. rank_score y \<noteq> NaN" "sorted_wrt score_le ys"
  shows "sorted_wrt score_le (sort_insert x ys)"
  using assms
proof (induction ys)
  case Nil
  then show ?case by simp
next
  case (Cons y ys)
  from Cons.prems have nx: "rank_score x \<noteq> NaN" and ny: "rank_score y \<noteq> NaN" by simp_all
  show ?case
  proof (cases "js_gt (comparator x y) (Num 0)")
    case True
    then have "js_less (rank_score y) (rank_score x)"
      using gt_zero_iff_less [OF nx ny] by (simp add: comparator_def)
    then have yx: "score_le y x" using nx ny by (simp add: score_le_def js_le_def js_less_asym)
    have "sorted_wrt score_le (sort_insert x ys)" using Cons by simp
    with True yx Cons.prems show ?thesis by (auto simp: set_sort_insert)
  next
    case False
    then have le: "\<not> js_less (rank_score y) (rank_score x)"
      using gt_zero_iff_less [OF nx ny] by (simp add: comparator_def)
    then have xy: "score_le x y" using nx ny by (simp add: score_le_def js_le_def)
    have "score_le x z" if "z \<in> set ys" for z
    proof -
      from that Cons.prems have nz: "rank_score z \<noteq> NaN" by simp
      from that Cons.prems have "score_le y z" by simp
      then have "\<not> js_less (rank_score z) (rank_score y)" by (simp add: score_le_def js_le_def)
      with le have "\<not> js_less (rank_score z) (rank_score x)"
        using not_less_trans [OF nx ny nz] by blast
      then show ?thesis using nx nz by (simp add: score_le_def js_le_def)
    qed
    with False xy Cons.prems show ?thesis by auto
  qed
qed

lemma sorted_insertion:
  "\<forall>y \<in> set xs. rank_score y \<noteq> NaN \<Longrightarrow> sorted_wrt score_le (foldr sort_insert xs [])"
proof (induction xs)
  case Nil
  then show ?case by simp
next
  case (Cons x xs)
  then have "sorted_wrt score_le (foldr sort_insert xs [])" by simp
  moreover have "\<forall>y \<in> set (foldr sort_insert xs []). rank_score y \<noteq> NaN"
    using Cons.prems mset_insertion [of xs] by (metis list.set_intros(2) set_mset_mset)
  ultimately have "sorted_wrt score_le (sort_insert x (foldr sort_insert xs []))"
    using Cons.prems by (intro sorted_sort_insert) simp_all
  then show ?case by simp
qed

lemma not_gt_same_score:
  "rank_score x = rank_score y \<Longrightarrow> \<not> js_gt (comparator x y) (Num 0)"
  by (cases "rank_score y") (simp_all add: comparator_def js_gt_def js_sub_def)

lemma filter_sort_insert:
  "filter (\<lambda>m. rank_score m = k) (sort_insert x ys) =
     filter (\<lambda>m. rank_score m = k) (x # ys)"
proof (induction ys)
  case Nil
  then show ?case by simp
next
  case (Cons y ys)
  show ?case
  proof (cases "js_gt (comparator x y) (Num 0)")
    case True
    then have "rank_score x \<noteq> rank_score y" using not_gt_same_score by blast
    with True Cons show ?thesis by auto
  next
    case False
    then show ?thesis by simp
  qed
qed

lemma insertion_stable:
  "filter (\<lambda>m. rank_score m = k) (foldr sort_insert xs []) = filter (\<lambda>m. rank_score m = k) xs"
  by (induction xs) (simp_all add: filter_sort_insert)

lemma consistent_without_NaN:
  "list_all (\<lambda>m. rank_score m \<noteq> NaN) xs \<Longrightarrow> consistent_comparator xs"
  by (simp add: consistent_comparator_def Let_def list_all_iff)

lemma js_sort_without_NaN:
  assumes "list_all (\<lambda>m. rank_score m \<noteq> NaN) xs"
  shows "js_sort xs = InOrder (foldr sort_insert xs [])"
    and "sorted_wrt score_le (foldr sort_insert xs [])"
proof -
  show "js_sort xs = InOrder (foldr sort_insert xs [])"
    using consistent_without_NaN [OF assms] by (simp add: js_sort_def)
  show "sorted_wrt score_le (foldr sort_insert xs [])"
    using assms by (intro sorted_insertion) (simp add: list_all_iff)
qed

lemma js_sort_InOrder:
  "js_sort xs = InOrder ms \<Longrightarrow> ms = foldr sort_insert xs []"
  by (simp add: js_sort_def split: if_splits)

lemma js_sort_EngineOrder:
  "js_sort xs = EngineOrder ms \<Longrightarrow> ms = xs \<and> \<not> consistent_comparator xs"
  by (simp add: js_sort_def split: if_splits)

subsection \<open>The handler\<close>

lemma compute_run:
  assumes "requester db userId = Some currentUser"
    and "\<not> falsy (home_lat currentUser)" "\<not> falsy (home_lng currentUser)"
    and "my_preferences db userId \<noteq> []"
  shows "compute env fetch rest uuidv4 db userId =
     \<lparr>reply = Status200 (length (newMatches (run_of env fetch rest uuidv4 db userId currentUser)))
                (js_sort (newMatches (run_of env fetch rest uuidv4 db userId currentUser))),
      stored = cleared db userId @ inserted (run_of env fetch rest uuidv4 db userId currentUser),
      issued = requests (drive_times_of env fetch db userId currentUser)\<rparr>"
  using assms
  by (simp add: compute_def Let_def run_of_def drive_times_of_def candidates_of_def
      length_listed_js_sort)

lemma compute_ok:
  assumes "reply (compute env fetch rest uuidv4 db userId) = Status200 n body"
  shows "\<exists>currentUser. requester db userId = Some currentUser \<and>
           \<not> falsy (home_lat currentUser) \<and> \<not> falsy (home_lng currentUser) \<and>
           my_preferences db userId \<noteq> []"
  using assms by (auto simp: compute_def Let_def split: option.splits if_splits)

lemma cleared_not_mine: "row \<in> set (cleared db userId) \<Longrightarrow> user_a_id row \<noteq> userId"
  by (simp add: cleared_def)

section \<open>The small deployment, evaluated\<close>

lemma haversine_meridian:
  assumes "lat1 \<le> lat2" "lat2 - lat1 \<le> 180"
  shows "haversine lat1 lng lat2 lng = 3959 * ((lat2 - lat1) * pi / 180)"
proof -
  define x where "x = (lat2 - lat1) * pi / 180"
  have x: "0 \<le> x" "x \<le> pi"
  proof -
    show "0 \<le> x" using assms(1) by (simp add: x_def)
    have "(lat2 - lat1) * pi \<le> 180 * pi"
      using assms(2) by (intro mult_right_mono) simp_all
    then show "x \<le> pi" by (simp add: x_def)
  qed
  have d: "lat2 * pi / 180 - lat1 * pi / 180 = x"
    by (simp add: x_def algebra_simps diff_divide_distrib)
  have "sin (lat1 * pi / 180) * sin (lat2 * pi / 180) +
        cos (lat1 * pi / 180) * cos (lat2 * pi / 180) * cos ((lng - lng) * pi / 180) =
        cos (lat2 * pi / 180 - lat1 * pi / 180)"
    by (simp add: cos_diff algebra_simps)
  then have "angular_separation lat1 lng lat2 lng = arccos (cos x)"
    unfolding angular_separation_def d by simp
  also have "\<dots> = x" using x by (rule arccos_cos)
  finally have "angular_separation lat1 lng lat2 lng = x" .
  then show ?thesis unfolding haversine_angular x_def by (simp only:)
qed

lemma example_far: "\<not> haversine 43.07 (- 89.4) 44.07 (- 89.4) \<le> 30"
proof -
  have "haversine 43.07 (- 89.4) 44.07 (- 89.4) = 3959 * ((44.07 - 43.07) * pi / 180)"
    by (rule haversine_meridian) simp_all
  moreover have "30 < 3959 * ((44.07 - 43.07) * pi / 180)"
    using pi_ge_two by simp
  ultimately show ?thesis by simp
qed

lemmas example_user_defs = user1_def user2_def user3_def user4_def user5_def user6_def

lemma example_requester: "requester example_db ''user-1'' = Some user1"
  by (simp add: requester_def example_db_def example_user_defs)

lemma example_my_preferences:
  "my_preferences example_db ''user-1'' = [example_pref ''user-1'' ''EITHER'']"
  by (simp add: my_preferences_def example_db_def example_pref_def)

lemma example_other_users: "other_users example_db ''user-1'' = [user2, user3, user4, user6]"
  by (simp add: other_users_def example_db_def example_user_defs del: not_None_eq)

lemma example_prefilter:
  "DISTANCE_THRESHOLD env = Num 30 \<Longrightarrow>
   prefilter env user1 [user2, user3, user4, user6] = [user2, user3]"
  using example_far
  by (simp add: prefilter_def example_user_defs haversine_same js_le_def)

lemma example_candidates:
  "DISTANCE_THRESHOLD env = Num 30 \<Longrightarrow> candidates_of env example_db ''user-1'' user1 = [user2, user3]"
  by (simp add: candidates_of_def example_other_users example_prefilter)

lemma example_located: "\<not> falsy (home_lat user1)" "\<not> falsy (home_lng user1)"
  by (simp_all add: falsy_def user1_def)

lemma example_cleared: "cleared example_db userId = []"
  by (simp add: cleared_def example_db_def)

lemma example_run:
  assumes "DISTANCE_THRESHOLD env = Num 30"
  shows "compute env fetch rest uuidv4 example_db ''user-1'' =
     \<lparr>reply = Status200
        (length (newMatches (candidate_loop env rest uuidv4 example_db ''user-1''
           (fetch_drive_times env fetch user1 [user2, user3]) user1
           [example_pref ''user-1'' ''EITHER''] [user2, user3])))
        (js_sort (newMatches (candidate_loop env rest uuidv4 example_db ''user-1''
           (fetch_drive_times env fetch user1 [user2, user3]) user1
           [example_pref ''user-1'' ''EITHER''] [user2, user3]))),
      stored = inserted (candidate_loop env rest uuidv4 example_db ''user-1''
           (fetch_drive_times env fetch user1 [user2, user3]) user1
           [example_pref ''user-1'' ''EITHER''] [user2, user3]),
      issued = requests (fetch_drive_times env fetch user1 [user2, user3])\<rparr>"
proof -
  have p: "my_preferences example_db ''user-1'' \<noteq> []" by (simp add: example_my_preferences)
  show ?thesis
    unfolding compute_run [OF example_requester example_located p]
    by (simp add: run_of_def drive_times_of_def example_candidates [OF assms]
        example_my_preferences example_cleared)
qed

lemma example_fetch_drive_times:
  "fetch_drive_times example_env (example_fetch e1 e2) user1 [user2, user3] = example_times e1 e2"
  by (simp add: fetch_drive_times_def second_call_def getDistanceMatrixMinutes_def
      example_env_def example_fetch_def example_times_def truthy_key_def cell_at_def
      element_minutes_def ok_element_def Let_def)


lemma example_estimate_meridian:
  assumes "WORK_LAT env = 42.97" "WORK_LNG env = - 89.4"
  shows "estimated_detour env user1 user7 = Num (3959 * pi / 450)"
proof -
  have a: "haversine 43.07 (- 89.4) 43.17 (- 89.4) = 3959 * ((43.17 - 43.07) * pi / 180)"
    by (rule haversine_meridian) simp_all
  have "haversine 43.17 (- 89.4) 42.97 (- 89.4) = haversine 42.97 (- 89.4) 43.17 (- 89.4)"
    by (rule haversine_sym)
  also have "\<dots> = 3959 * ((43.17 - 42.97) * pi / 180)"
    by (rule haversine_meridian) simp_all
  finally have b: "haversine 43.17 (- 89.4) 42.97 (- 89.4) = 3959 * ((43.17 - 42.97) * pi / 180)" .
  have "haversine 43.07 (- 89.4) 42.97 (- 89.4) = haversine 42.97 (- 89.4) 43.07 (- 89.4)"
    by (rule haversine_sym)
  also have "\<dots> = 3959 * ((43.07 - 42.97) * pi / 180)"
    by (rule haversine_meridian) simp_all
  finally have c: "haversine 43.07 (- 89.4) 42.97 (- 89.4) = 3959 * ((43.07 - 42.97) * pi / 180)" .
  have "estimated_detour env user1 user7 =
        Num (max 0 ((3959 * ((43.17 - 43.07) * pi / 180) + 3959 * ((43.17 - 42.97) * pi / 180) -
                     3959 * ((43.07 - 42.97) * pi / 180)) * 2))"
    by (simp only: estimated_detour_formula assms user1_def user7_def
        user_row.simps coord.simps a b c)
  also have "(3959 * ((43.17 - 43.07) * pi / 180) + 3959 * ((43.17 - 42.97) * pi / 180) -
                     3959 * ((43.07 - 42.97) * pi / 180)) * 2 = 3959 * pi / 450"
    by (simp add: field_simps)
  also have "max 0 (3959 * pi / 450) = 3959 * pi / 450"
    by simp
  finally show ?thesis .
qed

lemma example_times_of_day:
  "timeToMinutes rest ''07:00'' = Num 420" "timeToMinutes rest ''07:10'' = Num 430"
  by (simp_all add: timeToMinutes_def js_Number_def decimal_def is_digit_def digit_val_def)

lemma example_overlap:
  "computeOverlap rest ''07:00'' ''07:10'' [0] ''07:00'' ''07:10'' [0] =
     \<lparr>overlapMinutes = Num 10, commonDays = [0]\<rparr>"
  by (simp add: computeOverlap_def example_times_of_day Math_max_def Math_min_def js_sub_def Let_def)

lemmas example_loop_defs =
  candidate_loop_def upt_rec candidate_step_def detourMinutes_def example_times_def
  element_minutes_def ok_element_def not_found_element_def cell_at_def
  Math_max_def js_sub_def js_gt_def example_env_def example_db_def example_pref_def
  user2_def user3_def pair_loops_def pair_step_def rolesCompatible_def example_overlap Let_def
  W_DETOUR_def W_OVERLAP_def one_decimal_def example_uuid_def

lemma example_loop_close:
  "candidate_loop example_env rest example_uuid example_db ''user-1''
     (example_times (ok_element 302) (ok_element 301)) user1
     [example_pref ''user-1'' ''EITHER''] [user2, user3] =
   \<lparr>inserted =
      [\<lparr>row_id = ''m'', user_a_id = ''user-1'', user_b_id = ''user-2'', row_direction = ''TO_WORK'',
        row_detour_minutes = Num (151 / 30), row_time_overlap_minutes = Num 10,
        row_rank_score = Num (1 / 30)\<rparr>,
       \<lparr>row_id = ''mm'', user_a_id = ''user-1'', user_b_id = ''user-3'', row_direction = ''TO_WORK'',
        row_detour_minutes = Num (301 / 60), row_time_overlap_minutes = Num 10,
        row_rank_score = Num (1 / 60)\<rparr>],
     newMatches =
      [\<lparr>match_id = ''m'', partner_name = ''Jane'', match_direction = ''TO_WORK'',
        detour_minutes = Num 5, time_overlap_minutes = Num 10, rank_score = Num 0\<rparr>,
       \<lparr>match_id = ''mm'', partner_name = ''Raj'', match_direction = ''TO_WORK'',
        detour_minutes = Num 5, time_overlap_minutes = Num 10, rank_score = Num 0\<rparr>]\<rparr>"
  by (simp add: example_loop_defs)

lemma example_loop_apart:
  "candidate_loop example_env rest example_uuid example_db ''user-1''
     (example_times (ok_element 360) (ok_element 330)) user1
     [example_pref ''user-1'' ''EITHER''] [user2, user3] =
   \<lparr>inserted =
      [\<lparr>row_id = ''m'', user_a_id = ''user-1'', user_b_id = ''user-2'', row_direction = ''TO_WORK'',
        row_detour_minutes = Num 6, row_time_overlap_minutes = Num 10,
        row_rank_score = Num 1\<rparr>,
       \<lparr>row_id = ''mm'', user_a_id = ''user-1'', user_b_id = ''user-3'', row_direction = ''TO_WORK'',
        row_detour_minutes = Num (11 / 2), row_time_overlap_minutes = Num 10,
        row_rank_score = Num (1 / 2)\<rparr>],
     newMatches =
      [\<lparr>match_id = ''m'', partner_name = ''Jane'', match_direction = ''TO_WORK'',
        detour_minutes = Num 6, time_overlap_minutes = Num 10, rank_score = Num 1\<rparr>,
       \<lparr>match_id = ''mm'', partner_name = ''Raj'', match_direction = ''TO_WORK'',
        detour_minutes = Num (11 / 2), time_overlap_minutes = Num 10, rank_score = Num (1 / 2)\<rparr>]\<rparr>"
  by (simp add: example_loop_defs)

lemma example_loop_slow:
  "candidate_loop example_env rest example_uuid example_db ''user-1''
     (example_times (ok_element 302) (ok_element 3600)) user1
     [example_pref ''user-1'' ''EITHER''] [user2, user3] =
   \<lparr>inserted =
      [\<lparr>row_id = ''m'', user_a_id = ''user-1'', user_b_id = ''user-2'', row_direction = ''TO_WORK'',
        row_detour_minutes = Num (151 / 30), row_time_overlap_minutes = Num 10,
        row_rank_score = Num (1 / 30)\<rparr>],
     newMatches =
      [\<lparr>match_id = ''m'', partner_name = ''Jane'', match_direction = ''TO_WORK'',
        detour_minutes = Num 5, time_overlap_minutes = Num 10, rank_score = Num 0\<rparr>]\<rparr>"
  by (simp add: example_loop_defs)



lemma example_no_key_times:
  "fetch_drive_times example_env_lenient fetch user1 [user2, user3] =
     \<lparr>driverToRiderMin = None, driverToWorkMin = Null, riderToWorkMin = None, requests = []\<rparr>"
  by (rule no_key_no_lookup) (simp add: example_env_lenient_def truthy_key_def)

lemma example_loop_lenient:
  "candidate_loop example_env_lenient rest example_uuid example_db ''user-1''
     (fetch_drive_times example_env_lenient fetch user1 [user2, user3]) user1
     [example_pref ''user-1'' ''EITHER''] [user2, user3] =
   \<lparr>inserted =
      [\<lparr>row_id = ''m'', user_a_id = ''user-1'', user_b_id = ''user-2'', row_direction = ''TO_WORK'',
        row_detour_minutes = Num 0, row_time_overlap_minutes = Num 10,
        row_rank_score = Num (- 5)\<rparr>,
       \<lparr>row_id = ''mm'', user_a_id = ''user-1'', user_b_id = ''user-3'', row_direction = ''TO_WORK'',
        row_detour_minutes = Num 0, row_time_overlap_minutes = Num 10,
        row_rank_score = Num (- 5)\<rparr>],
     newMatches =
      [\<lparr>match_id = ''m'', partner_name = ''Jane'', match_direction = ''TO_WORK'',
        detour_minutes = Num 0, time_overlap_minutes = Num 10, rank_score = Num (- 5)\<rparr>,
       \<lparr>match_id = ''mm'', partner_name = ''Raj'', match_direction = ''TO_WORK'',
        detour_minutes = Num 0, time_overlap_minutes = Num 10, rank_score = Num (- 5)\<rparr>]\<rparr>"
  unfolding example_no_key_times
  by (simp add: example_loop_defs example_env_lenient_def estimated_detour_def user1_def
      haversine_same)

lemma example_run_of:
  "run_of example_env (example_fetch e1 e2) rest uuidv4 example_db ''user-1'' user1 =
     candidate_loop example_env rest uuidv4 example_db ''user-1'' (example_times e1 e2) user1
       [example_pref ''user-1'' ''EITHER''] [user2, user3]"
  "drive_times_of example_env (example_fetch e1 e2) example_db ''user-1'' user1 = example_times e1 e2"
  "candidates_of example_env example_db ''user-1'' user1 = [user2, user3]"
proof -
  have t: "DISTANCE_THRESHOLD example_env = Num 30" by (simp add: example_env_def)
  show "candidates_of example_env example_db ''user-1'' user1 = [user2, user3]"
    using t by (rule example_candidates)
  then show "drive_times_of example_env (example_fetch e1 e2) example_db ''user-1'' user1 =
      example_times e1 e2"
    by (simp add: drive_times_of_def example_fetch_drive_times)
  then show "run_of example_env (example_fetch e1 e2) rest uuidv4 example_db ''user-1'' user1 =
     candidate_loop example_env rest uuidv4 example_db ''user-1'' (example_times e1 e2) user1
       [example_pref ''user-1'' ''EITHER''] [user2, user3]"
    by (simp add: run_of_def example_candidates [OF t] example_my_preferences)
qed

lemma example_reply:
  assumes "candidate_loop example_env rest example_uuid example_db ''user-1'' (example_times e1 e2)
             user1 [example_pref ''user-1'' ''EITHER''] [user2, user3] = st"
  shows "compute example_env (example_fetch e1 e2) rest example_uuid example_db ''user-1'' =
     \<lparr>reply = Status200 (length (newMatches st)) (js_sort (newMatches st)),
      stored = inserted st, issued = requests (example_times e1 e2)\<rparr>"
proof -
  have t: "DISTANCE_THRESHOLD example_env = Num 30" by (simp add: example_env_def)
  show ?thesis
    unfolding example_run [OF t] example_fetch_drive_times assms by (rule refl)
qed

section \<open>Properties of a run as a whole\<close>

subsection \<open>Precondition failures\<close>

text \<open>
  Claim C5. When the requester has no home location (no row, or a row lacking a
  coordinate) the run answers status 400 with the reason
  \<^verbatim>\<open>Please set your home address first\<close>; when the requester has no commute preferences it
  answers status 400 with that reason or with
  \<^verbatim>\<open>Please set your commute preferences first\<close>, the latter whenever the home location is
  set. In each case the match store is left as it was (nothing deleted, nothing
  inserted) and no routing request is issued: the run stops before any candidate work.
\<close>

theorem compute_precondition_failure:
  "(no_home_location db userId \<longrightarrow>
      compute env fetch rest uuidv4 db userId =
        \<lparr>reply = Status400 ''Please set your home address first'',
         stored = match_results db, issued = []\<rparr>) \<and>
   (no_preferences db userId \<longrightarrow>
      compute env fetch rest uuidv4 db userId =
        \<lparr>reply = Status400 ''Please set your home address first'',
         stored = match_results db, issued = []\<rparr> \<or>
      compute env fetch rest uuidv4 db userId =
        \<lparr>reply = Status400 ''Please set your commute preferences first'',
         stored = match_results db, issued = []\<rparr>) \<and>
   (no_preferences db userId \<and> \<not> no_home_location db userId \<and>
    (\<forall>u. requester db userId = Some u \<longrightarrow> home_lat u \<noteq> Some 0 \<and> home_lng u \<noteq> Some 0) \<longrightarrow>
      compute env fetch rest uuidv4 db userId =
        \<lparr>reply = Status400 ''Please set your commute preferences first'',
         stored = match_results db, issued = []\<rparr>)"
  by (auto simp: compute_def no_home_location_def no_preferences_def falsy_def Let_def
           split: option.splits)

text \<open>
  The theorem in the small deployment: user 5 has no home, user 4 has a home and no
  preferences.
\<close>

theorem compute_precondition_failure_witness:
  "no_home_location example_db ''user-5'' \<and>
   compute example_env rejecting_fetch rest_NaN example_uuid example_db ''user-5'' =
     \<lparr>reply = Status400 ''Please set your home address first'',
      stored = match_results example_db, issued = []\<rparr> \<and>
   no_preferences example_db ''user-4'' \<and> \<not> no_home_location example_db ''user-4'' \<and>
   compute example_env rejecting_fetch rest_NaN example_uuid example_db ''user-4'' =
     \<lparr>reply = Status400 ''Please set your commute preferences first'',
      stored = match_results example_db, issued = []\<rparr>"
proof -
  have r5: "requester example_db ''user-5'' = Some user5"
    and r4: "requester example_db ''user-4'' = Some user4"
    by (simp_all add: requester_def example_db_def example_user_defs)
  have h5: "no_home_location example_db ''user-5''"
    by (simp add: no_home_location_def r5 user5_def)
  have h4: "\<not> no_home_location example_db ''user-4''"
    by (simp add: no_home_location_def r4 user4_def)
  have p4: "no_preferences example_db ''user-4''"
    by (simp add: no_preferences_def my_preferences_def example_db_def example_pref_def)
  have z4: "\<forall>u. requester example_db ''user-4'' = Some u \<longrightarrow> home_lat u \<noteq> Some 0 \<and> home_lng u \<noteq> Some 0"
    by (simp add: r4 user4_def)
  from h5 h4 p4 z4
    compute_precondition_failure [of example_db "''user-5''" example_env rejecting_fetch rest_NaN example_uuid]
    compute_precondition_failure [of example_db "''user-4''" example_env rejecting_fetch rest_NaN example_uuid]
  show ?thesis by blast
qed

subsection \<open>The detour gate\<close>

text \<open>
  Claim C1. A turn of the candidate loop whose detour exceeds the threshold leaves the
  run state as it found it: the test comes before the loops over the preferences, so
  nothing is inserted, nothing is reported and no score is formed for that candidate
  (its preferences have been read, not paired). Accordingly every row that a run
  inserts belongs to a candidate whose detour does not exceed the threshold.
\<close>

theorem detour_gate_drops_candidate:
  "(js_gt (detourMinutes env dt currentUser i other) (DETOUR_THRESHOLD env) \<longrightarrow>
      candidate_step env rest uuidv4 db userId dt currentUser myPrefs st (i, other) = st) \<and>
   (\<forall>row \<in> set (inserted (candidate_loop env rest uuidv4 db userId dt currentUser myPrefs candidates)).
      \<exists>j < length candidates. user_b_id row = uid (candidates ! j) \<and>
        \<not> js_gt (detourMinutes env dt currentUser j (candidates ! j)) (DETOUR_THRESHOLD env))"
  using candidate_step_gated [of env dt currentUser i other rest uuidv4 db userId myPrefs st]
    inserted_candidate_loop [of _ env rest uuidv4 db userId dt currentUser myPrefs candidates]
  by blast

text \<open>
  The theorem in the small deployment, with a routing service that puts user 3 an hour
  away: the detour of 60 minutes exceeds 15, and the only row of the run is for user 2.
\<close>

theorem detour_gate_drops_candidate_witness:
  "js_gt (detourMinutes example_env (example_times (ok_element 302) (ok_element 3600)) user1 1 user3)
     (DETOUR_THRESHOLD example_env) \<and>
   candidate_step example_env rest_NaN example_uuid example_db ''user-1''
     (example_times (ok_element 302) (ok_element 3600)) user1 [example_pref ''user-1'' ''EITHER'']
     \<lparr>inserted = [], newMatches = []\<rparr> (1, user3) = \<lparr>inserted = [], newMatches = []\<rparr> \<and>
   inserted (candidate_loop example_env rest_NaN example_uuid example_db ''user-1''
     (example_times (ok_element 302) (ok_element 3600)) user1 [example_pref ''user-1'' ''EITHER'']
     [user2, user3]) =
     [\<lparr>row_id = ''m'', user_a_id = ''user-1'', user_b_id = ''user-2'', row_direction = ''TO_WORK'',
       row_detour_minutes = Num (151 / 30), row_time_overlap_minutes = Num 10,
       row_rank_score = Num (1 / 30)\<rparr>] \<and>
   (\<exists>j < length [user2, user3]. ''user-2'' = uid ([user2, user3] ! j) \<and>
      \<not> js_gt (detourMinutes example_env (example_times (ok_element 302) (ok_element 3600))
                 user1 j ([user2, user3] ! j)) (DETOUR_THRESHOLD example_env))"
proof -
  let ?row = "\<lparr>row_id = ''m'', user_a_id = ''user-1'', user_b_id = ''user-2'', row_direction = ''TO_WORK'',
       row_detour_minutes = Num (151 / 30), row_time_overlap_minutes = Num 10,
       row_rank_score = Num (1 / 30)\<rparr>"
  have g: "js_gt (detourMinutes example_env (example_times (ok_element 302) (ok_element 3600)) user1 1 user3)
     (DETOUR_THRESHOLD example_env)"
    by (simp add: detourMinutes_def example_times_def element_minutes_def ok_element_def cell_at_def
        Math_max_def js_sub_def js_gt_def example_env_def)
  have l: "inserted (candidate_loop example_env rest_NaN example_uuid example_db ''user-1''
     (example_times (ok_element 302) (ok_element 3600)) user1 [example_pref ''user-1'' ''EITHER'']
     [user2, user3]) = [?row]"
    by (simp add: example_loop_slow)
  then have m: "?row \<in> set (inserted (candidate_loop example_env rest_NaN example_uuid example_db ''user-1''
     (example_times (ok_element 302) (ok_element 3600)) user1 [example_pref ''user-1'' ''EITHER'']
     [user2, user3]))"
    by simp
  have b: "user_b_id ?row = ''user-2''" by simp
  note t = detour_gate_drops_candidate
    [of example_env "example_times (ok_element 302) (ok_element 3600)" user1 1 user3
        rest_NaN example_uuid example_db "''user-1''" "[example_pref ''user-1'' ''EITHER'']"
        "\<lparr>inserted = [], newMatches = []\<rparr>" "[user2, user3]"]
  from t g have s: "candidate_step example_env rest_NaN example_uuid example_db ''user-1''
     (example_times (ok_element 302) (ok_element 3600)) user1 [example_pref ''user-1'' ''EITHER'']
     \<lparr>inserted = [], newMatches = []\<rparr> (1, user3) = \<lparr>inserted = [], newMatches = []\<rparr>"
    by blast
  from t m have "\<exists>j < length [user2, user3]. user_b_id ?row = uid ([user2, user3] ! j) \<and>
      \<not> js_gt (detourMinutes example_env (example_times (ok_element 302) (ok_element 3600))
                 user1 j ([user2, user3] ! j)) (DETOUR_THRESHOLD example_env)"
    by blast
  with g l s show ?thesis unfolding b by blast
qed


subsection \<open>Estimated and exact detour\<close>

text \<open>
  Claim C2. The estimate is \<open>max 0\<close> of twice the extra haversine mileage via the
  candidate, a function of the coordinates alone. In the exact arithmetic that stands
  for the doubles here, the mileage is 3959 times the central angle, so the estimate is
  \<open>max 0\<close> of 7918 times the excess of the two angles via the candidate over the direct
  one. The handler uses it for candidate
  \<open>i\<close> exactly when one of the three durations is \<^verbatim>\<open>null\<close>; otherwise it computes
  from the three cells, whatever they hold. Without an API key no request is issued in
  the whole run and every candidate gets the estimate. With a key, every candidate gets
  it when a request rejects or answers with a status other than \<^verbatim>\<open>OK\<close>, and candidate
  \<open>i\<close> gets it when the element of the reply for one of its two legs, or for the
  requester's own drive, is there and is not \<^verbatim>\<open>OK\<close>.
\<close>

theorem estimated_mode_detour:
  "estimated_detour env currentUser other =
     Num (max 0
       ((haversine (coord (home_lat currentUser)) (coord (home_lng currentUser))
           (coord (home_lat other)) (coord (home_lng other)) +
         haversine (coord (home_lat other)) (coord (home_lng other)) (WORK_LAT env) (WORK_LNG env) -
         haversine (coord (home_lat currentUser)) (coord (home_lng currentUser))
           (WORK_LAT env) (WORK_LNG env)) * 2)) \<and>
   estimated_detour env currentUser other =
     Num (max 0
       (3959 *
        (angular_separation (coord (home_lat currentUser)) (coord (home_lng currentUser))
           (coord (home_lat other)) (coord (home_lng other)) +
         angular_separation (coord (home_lat other)) (coord (home_lng other))
           (WORK_LAT env) (WORK_LNG env) -
         angular_separation (coord (home_lat currentUser)) (coord (home_lng currentUser))
           (WORK_LAT env) (WORK_LNG env)) * 2)) \<and>
   detourMinutes env dt currentUser i other =
     (if exact_unavailable dt i then estimated_detour env currentUser other
      else Math_max (Num 0)
             (js_sub (js_add (cell_num (leg (driverToRiderMin dt) i))
                             (cell_num (leg (riderToWorkMin dt) i)))
                (cell_num (driverToWorkMin dt)))) \<and>
   (\<not> truthy_key (GOOGLE_MAPS_API_KEY env) \<longrightarrow>
      issued (compute env fetch rest uuidv4 db userId) = [] \<and>
      requests (fetch_drive_times env fetch currentUser candidates) = [] \<and>
      detourMinutes env (fetch_drive_times env fetch currentUser candidates) currentUser i other =
        estimated_detour env currentUser other) \<and>
   (GOOGLE_MAPS_API_KEY env = Some k \<and>
    (fetch [home currentUser] (map home candidates @ [(WORK_LAT env, WORK_LNG env)]) k = Rejects \<or>
     (\<exists>d. fetch [home currentUser] (map home candidates @ [(WORK_LAT env, WORK_LNG env)]) k = Resolves d \<and>
          dm_status d \<noteq> ''OK'') \<or>
     fetch (map home candidates) [(WORK_LAT env, WORK_LNG env)] k = Rejects \<or>
     (\<exists>d. fetch (map home candidates) [(WORK_LAT env, WORK_LNG env)] k = Resolves d \<and>
          dm_status d \<noteq> ''OK'')) \<longrightarrow>
      detourMinutes env (fetch_drive_times env fetch currentUser candidates) currentUser i other =
        estimated_detour env currentUser other) \<and>
   (GOOGLE_MAPS_API_KEY env = Some k \<and>
    fetch [home currentUser] (map home candidates @ [(WORK_LAT env, WORK_LNG env)]) k =
      Resolves \<lparr>dm_status = ''OK'', dm_rows = row1 # further\<rparr> \<and>
    (i < length candidates \<and> i < length row1 \<and> el_status (row1 ! i) \<noteq> ''OK'' \<or>
     length candidates < length row1 \<and> el_status (row1 ! length candidates) \<noteq> ''OK'') \<longrightarrow>
      detourMinutes env (fetch_drive_times env fetch currentUser candidates) currentUser i other =
        estimated_detour env currentUser other) \<and>
   (GOOGLE_MAPS_API_KEY env = Some k \<and>
    fetch (map home candidates) [(WORK_LAT env, WORK_LNG env)] k =
      Resolves \<lparr>dm_status = ''OK'', dm_rows = rows2\<rparr> \<and>
    i < length rows2 \<and> rows2 ! i = e2 # rest2 \<and> el_status e2 \<noteq> ''OK'' \<longrightarrow>
      detourMinutes env (fetch_drive_times env fetch currentUser candidates) currentUser i other =
        estimated_detour env currentUser other)"
proof (intro conjI impI; (elim conjE)?)
  show "estimated_detour env currentUser other =
     Num (max 0
       ((haversine (coord (home_lat currentUser)) (coord (home_lng currentUser))
           (coord (home_lat other)) (coord (home_lng other)) +
         haversine (coord (home_lat other)) (coord (home_lng other)) (WORK_LAT env) (WORK_LNG env) -
         haversine (coord (home_lat currentUser)) (coord (home_lng currentUser))
           (WORK_LAT env) (WORK_LNG env)) * 2))"
    by (rule estimated_detour_formula)
next
  show "estimated_detour env currentUser other =
     Num (max 0
       (3959 *
        (angular_separation (coord (home_lat currentUser)) (coord (home_lng currentUser))
           (coord (home_lat other)) (coord (home_lng other)) +
         angular_separation (coord (home_lat other)) (coord (home_lng other))
           (WORK_LAT env) (WORK_LNG env) -
         angular_separation (coord (home_lat currentUser)) (coord (home_lng currentUser))
           (WORK_LAT env) (WORK_LNG env)) * 2))"
    unfolding estimated_detour_formula haversine_angular by (simp add: algebra_simps)
next
  show "detourMinutes env dt currentUser i other =
     (if exact_unavailable dt i then estimated_detour env currentUser other
      else Math_max (Num 0)
             (js_sub (js_add (cell_num (leg (driverToRiderMin dt) i))
                             (cell_num (leg (riderToWorkMin dt) i)))
                (cell_num (driverToWorkMin dt))))"
    by (rule detourMinutes_cases)
next
  assume k: "\<not> truthy_key (GOOGLE_MAPS_API_KEY env)"
  have none: "fetch_drive_times env fetch u cs =
     \<lparr>driverToRiderMin = None, driverToWorkMin = Null, riderToWorkMin = None, requests = []\<rparr>"
    for u cs using k by (rule no_key_no_lookup)
  show "issued (compute env fetch rest uuidv4 db userId) = []"
    using issued_compute [of env fetch rest uuidv4 db userId] by (auto simp: none)
  show "requests (fetch_drive_times env fetch currentUser candidates) = []"
    by (simp add: none)
  show "detourMinutes env (fetch_drive_times env fetch currentUser candidates) currentUser i other =
        estimated_detour env currentUser other"
    by (simp add: none detourMinutes_def)
next
  assume "GOOGLE_MAPS_API_KEY env = Some k"
    "fetch [home currentUser] (map home candidates @ [(WORK_LAT env, WORK_LNG env)]) k = Rejects \<or>
     (\<exists>d. fetch [home currentUser] (map home candidates @ [(WORK_LAT env, WORK_LNG env)]) k = Resolves d \<and>
          dm_status d \<noteq> ''OK'') \<or>
     fetch (map home candidates) [(WORK_LAT env, WORK_LNG env)] k = Rejects \<or>
     (\<exists>d. fetch (map home candidates) [(WORK_LAT env, WORK_LNG env)] k = Resolves d \<and>
          dm_status d \<noteq> ''OK'')"
  then have "exact_unavailable (fetch_drive_times env fetch currentUser candidates) i"
    by (rule all_failed_unavailable)
  then show "detourMinutes env (fetch_drive_times env fetch currentUser candidates) currentUser i other =
        estimated_detour env currentUser other"
    by (rule detour_fallback)
next
  assume key: "GOOGLE_MAPS_API_KEY env = Some k"
    and c1: "fetch [home currentUser] (map home candidates @ [(WORK_LAT env, WORK_LNG env)]) k =
      Resolves \<lparr>dm_status = ''OK'', dm_rows = row1 # further\<rparr>"
    and el: "i < length candidates \<and> i < length row1 \<and> el_status (row1 ! i) \<noteq> ''OK'' \<or>
     length candidates < length row1 \<and> el_status (row1 ! length candidates) \<noteq> ''OK''"
  from el have "exact_unavailable (fetch_drive_times env fetch currentUser candidates) i"
  proof
    assume "i < length candidates \<and> i < length row1 \<and> el_status (row1 ! i) \<noteq> ''OK''"
    then have "i < length candidates" "i < length row1" "el_status (row1 ! i) \<noteq> ''OK''"
      by simp_all
    with key c1 show ?thesis by (rule candidate_element_not_ok)
  next
    assume "length candidates < length row1 \<and> el_status (row1 ! length candidates) \<noteq> ''OK''"
    then have "length candidates < length row1" "el_status (row1 ! length candidates) \<noteq> ''OK''"
      by simp_all
    with key c1 show ?thesis by (rule workplace_element_not_ok)
  qed
  then show "detourMinutes env (fetch_drive_times env fetch currentUser candidates) currentUser i other =
        estimated_detour env currentUser other"
    by (rule detour_fallback)
next
  assume "GOOGLE_MAPS_API_KEY env = Some k"
    "fetch (map home candidates) [(WORK_LAT env, WORK_LNG env)] k =
      Resolves \<lparr>dm_status = ''OK'', dm_rows = rows2\<rparr>"
    "i < length rows2" "rows2 ! i = e2 # rest2" "el_status e2 \<noteq> ''OK''"
  then have "exact_unavailable (fetch_drive_times env fetch currentUser candidates) i"
    by (rule rider_element_not_ok)
  then show "detourMinutes env (fetch_drive_times env fetch currentUser candidates) currentUser i other =
        estimated_detour env currentUser other"
    by (rule detour_fallback)
qed

text \<open>
  The theorem with the workplace a tenth of a degree south of the requester and user 7
  a tenth of a degree north, as the only candidate: the way via user 7 is two tenths of a
  degree longer, and the estimate is \<open>3959 \<pi> / 450\<close>, about 27.6 minutes. User 7 gets
  it without a key, when the service rejects, and when the element for the leg to user
  7, for the requester's own drive, or for the leg from user 7 to the workplace is not
  found.
\<close>

theorem estimated_mode_detour_witness:
  "issued (compute example_env_meridian rejecting_fetch rest_NaN example_uuid example_db ''user-1'') = [] \<and>
   detourMinutes example_env_meridian
     (fetch_drive_times example_env_meridian rejecting_fetch user1 [user7]) user1 0 user7 =
     Num (3959 * pi / 450) \<and>
   detourMinutes example_env_meridian_key
     (fetch_drive_times example_env_meridian_key rejecting_fetch user1 [user7]) user1 0 user7 =
     Num (3959 * pi / 450) \<and>
   detourMinutes example_env_meridian_key
     (fetch_drive_times example_env_meridian_key
        (example_fetch not_found_element (ok_element 600)) user1 [user7]) user1 0 user7 =
     Num (3959 * pi / 450) \<and>
   detourMinutes example_env_meridian_key
     (fetch_drive_times example_env_meridian_key
        (example_fetch (ok_element 300) not_found_element) user1 [user7]) user1 0 user7 =
     Num (3959 * pi / 450) \<and>
   detourMinutes example_env_meridian_key
     (fetch_drive_times example_env_meridian_key no_route_fetch user1 [user7]) user1 0 user7 =
     Num (3959 * pi / 450) \<and>
   0 < 3959 * pi / 450"
proof -
  have e: "estimated_detour example_env_meridian user1 user7 = Num (3959 * pi / 450)"
    "estimated_detour example_env_meridian_key user1 user7 = Num (3959 * pi / 450)"
    by (rule example_estimate_meridian; simp add: example_env_meridian_def example_env_meridian_key_def)+
  have nk: "\<not> truthy_key (GOOGLE_MAPS_API_KEY example_env_meridian)"
    by (simp add: truthy_key_def example_env_meridian_def)
  have key: "GOOGLE_MAPS_API_KEY example_env_meridian_key = Some ''test-key''"
    by (simp add: example_env_meridian_key_def)
  have rej: "rejecting_fetch [home user1]
       (map home [user7] @ [(WORK_LAT example_env_meridian_key, WORK_LNG example_env_meridian_key)])
       ''test-key'' = Rejects"
    by (simp add: rejecting_fetch_def)
  have c1: "example_fetch not_found_element (ok_element 600) [home user1]
       (map home [user7] @ [(WORK_LAT example_env_meridian_key, WORK_LNG example_env_meridian_key)])
       ''test-key'' =
     Resolves \<lparr>dm_status = ''OK'',
       dm_rows = [not_found_element, ok_element 600, ok_element 600] # []\<rparr>"
    by (simp add: example_fetch_def)
  have el1: "0 < length [user7] \<and> 0 < length [not_found_element, ok_element 600, ok_element 600] \<and>
      el_status ([not_found_element, ok_element 600, ok_element 600] ! 0) \<noteq> ''OK''"
    by (simp add: not_found_element_def)
  have c1w: "example_fetch (ok_element 300) not_found_element [home user1]
       (map home [user7] @ [(WORK_LAT example_env_meridian_key, WORK_LNG example_env_meridian_key)])
       ''test-key'' =
     Resolves \<lparr>dm_status = ''OK'',
       dm_rows = [ok_element 300, not_found_element, ok_element 600] # []\<rparr>"
    by (simp add: example_fetch_def)
  have el1w: "length [user7] < length [ok_element 300, not_found_element, ok_element 600] \<and>
      el_status ([ok_element 300, not_found_element, ok_element 600] ! length [user7]) \<noteq> ''OK''"
    by (simp add: not_found_element_def)
  have c2: "no_route_fetch (map home [user7])
       [(WORK_LAT example_env_meridian_key, WORK_LNG example_env_meridian_key)] ''test-key'' =
     Resolves \<lparr>dm_status = ''OK'', dm_rows = [[not_found_element]]\<rparr>"
    by (simp add: no_route_fetch_def)
  have el2: "0 < length [[not_found_element]]" "[[not_found_element]] ! 0 = not_found_element # []"
    "el_status not_found_element \<noteq> ''OK''"
    by (simp_all add: not_found_element_def)
  from nk estimated_mode_detour
    [where env = example_env_meridian and fetch = rejecting_fetch and rest = rest_NaN
       and ?uuidv4.0 = example_uuid and db = example_db and userId = "''user-1''"
       and currentUser = user1 and candidates = "[user7]" and i = 0 and other = user7]
  have a: "issued (compute example_env_meridian rejecting_fetch rest_NaN example_uuid example_db ''user-1'') = []"
    and b: "detourMinutes example_env_meridian
       (fetch_drive_times example_env_meridian rejecting_fetch user1 [user7]) user1 0 user7 =
       estimated_detour example_env_meridian user1 user7"
    by blast+
  from key rej estimated_mode_detour
    [where env = example_env_meridian_key and fetch = rejecting_fetch and k = "''test-key''"
       and currentUser = user1 and candidates = "[user7]" and i = 0 and other = user7]
  have c: "detourMinutes example_env_meridian_key
       (fetch_drive_times example_env_meridian_key rejecting_fetch user1 [user7]) user1 0 user7 =
       estimated_detour example_env_meridian_key user1 user7"
    by blast
  from key c1 el1 estimated_mode_detour
    [where env = example_env_meridian_key
       and fetch = "example_fetch not_found_element (ok_element 600)" and k = "''test-key''"
       and currentUser = user1 and candidates = "[user7]" and i = 0 and other = user7
       and ?row1.0 = "[not_found_element, ok_element 600, ok_element 600]" and further = "[]"]
  have d: "detourMinutes example_env_meridian_key
       (fetch_drive_times example_env_meridian_key
          (example_fetch not_found_element (ok_element 600)) user1 [user7]) user1 0 user7 =
       estimated_detour example_env_meridian_key user1 user7"
    by blast
  from key c1w el1w estimated_mode_detour
    [where env = example_env_meridian_key
       and fetch = "example_fetch (ok_element 300) not_found_element" and k = "''test-key''"
       and currentUser = user1 and candidates = "[user7]" and i = 0 and other = user7
       and ?row1.0 = "[ok_element 300, not_found_element, ok_element 600]" and further = "[]"]
  have f: "detourMinutes example_env_meridian_key
       (fetch_drive_times example_env_meridian_key
          (example_fetch (ok_element 300) not_found_element) user1 [user7]) user1 0 user7 =
       estimated_detour example_env_meridian_key user1 user7"
    by blast
  from key c2 el2 estimated_mode_detour
    [where env = example_env_meridian_key and fetch = no_route_fetch and k = "''test-key''"
       and currentUser = user1 and candidates = "[user7]" and i = 0 and other = user7
       and ?rows2.0 = "[[not_found_element]]" and ?e2.0 = not_found_element and ?rest2.0 = "[]"]
  have g: "detourMinutes example_env_meridian_key
       (fetch_drive_times example_env_meridian_key no_route_fetch user1 [user7]) user1 0 user7 =
       estimated_detour example_env_meridian_key user1 user7"
    by blast
  have p: "0 < 3959 * pi / 450" by simp
  from a b c d f g p show ?thesis unfolding e by blast
qed


subsection \<open>The prefilter\<close>

lemma prefilter_numeric:
  "DISTANCE_THRESHOLD env = Num t \<Longrightarrow>
   prefilter env currentUser others =
     filter (\<lambda>other. haversine (coord (home_lat currentUser)) (coord (home_lng currentUser))
                       (coord (home_lat other)) (coord (home_lng other)) \<le> t) others"
  by (simp add: prefilter_def js_le_def not_less)

lemma stored_within_threshold:
  assumes ok: "reply (compute env fetch rest uuidv4 db userId) = Status200 n body"
    and row: "row \<in> set (stored (compute env fetch rest uuidv4 db userId))"
    and mine: "user_a_id row = userId"
  shows "\<exists>currentUser other. requester db userId = Some currentUser \<and>
           other \<in> set (other_users db userId) \<and> user_b_id row = uid other \<and>
           js_le (Num (haversine (coord (home_lat currentUser)) (coord (home_lng currentUser))
                         (coord (home_lat other)) (coord (home_lng other))))
             (DISTANCE_THRESHOLD env)"
proof -
  from compute_ok [OF ok] obtain currentUser where cu: "requester db userId = Some currentUser"
    and pre: "\<not> falsy (home_lat currentUser)" "\<not> falsy (home_lng currentUser)"
      "my_preferences db userId \<noteq> []"
    by blast
  have run: "stored (compute env fetch rest uuidv4 db userId) =
      cleared db userId @ inserted (run_of env fetch rest uuidv4 db userId currentUser)"
    unfolding compute_run [OF cu pre] by simp
  from row mine have "row \<in> set (inserted (run_of env fetch rest uuidv4 db userId currentUser))"
    unfolding run using cleared_not_mine [of row db userId] by auto
  then have "row \<in> set (inserted (candidate_loop env rest uuidv4 db userId
        (drive_times_of env fetch db userId currentUser) currentUser (my_preferences db userId)
        (candidates_of env db userId currentUser)))"
    by (simp add: run_of_def)
  then obtain j where j: "j < length (candidates_of env db userId currentUser)"
    and b: "user_b_id row = uid (candidates_of env db userId currentUser ! j)"
    by (blast dest: inserted_candidate_loop)
  define other where "other = candidates_of env db userId currentUser ! j"
  from j have "other \<in> set (prefilter env currentUser (other_users db userId))"
    unfolding other_def candidates_of_def by simp
  then have "other \<in> set (other_users db userId)"
    "js_le (Num (haversine (coord (home_lat currentUser)) (coord (home_lng currentUser))
                         (coord (home_lat other)) (coord (home_lng other))))
             (DISTANCE_THRESHOLD env)"
    by (simp_all add: prefilter_def)
  with cu b show ?thesis unfolding other_def by blast
qed

text \<open>
  Claim C6. With a numeric threshold \<open>t\<close> the prefilter keeps exactly the users whose
  haversine distance from the requester is at most \<open>t\<close>, in their order. A run whose
  preconditions hold looks up the drive times for the users the prefilter kept and runs
  the loop that computes the detours, exact or estimated, over those users and no
  others. So, with or without an API key, every point of every routing request of a run
  is the workplace, the requester's home, or the home of a user within the threshold,
  and every row that a run stores for the requester names a user within the threshold.
\<close>

theorem prefilter_before_lookup:
  "(DISTANCE_THRESHOLD env = Num t \<longrightarrow>
      prefilter env currentUser others =
        filter (\<lambda>other. haversine (coord (home_lat currentUser)) (coord (home_lng currentUser))
                          (coord (home_lat other)) (coord (home_lng other)) \<le> t) others) \<and>
   (requester db userId = Some currentUser \<and>
    \<not> falsy (home_lat currentUser) \<and> \<not> falsy (home_lng currentUser) \<and>
    my_preferences db userId \<noteq> [] \<longrightarrow>
      (let candidates = prefilter env currentUser (other_users db userId);
           dt = fetch_drive_times env fetch currentUser candidates;
           st = candidate_loop env rest uuidv4 db userId dt currentUser
                  (my_preferences db userId) candidates
       in compute env fetch rest uuidv4 db userId =
            \<lparr>reply = Status200 (length (newMatches st)) (js_sort (newMatches st)),
             stored = cleared db userId @ inserted st,
             issued = requests dt\<rparr>)) \<and>
   (\<forall>(os, ds) \<in> set (issued (compute env fetch rest uuidv4 db userId)).
      \<forall>p \<in> set os \<union> set ds.
        p = (WORK_LAT env, WORK_LNG env) \<or>
        (\<exists>u. requester db userId = Some u \<and>
           (p = home u \<or>
            (\<exists>other \<in> set (other_users db userId). p = home other \<and>
               js_le (Num (haversine (coord (home_lat u)) (coord (home_lng u))
                             (coord (home_lat other)) (coord (home_lng other))))
                 (DISTANCE_THRESHOLD env))))) \<and>
   (reply (compute env fetch rest uuidv4 db userId) = Status200 n body \<and>
    row \<in> set (stored (compute env fetch rest uuidv4 db userId)) \<and> user_a_id row = userId \<longrightarrow>
      (\<exists>u other. requester db userId = Some u \<and>
         other \<in> set (other_users db userId) \<and> user_b_id row = uid other \<and>
         js_le (Num (haversine (coord (home_lat u)) (coord (home_lng u))
                       (coord (home_lat other)) (coord (home_lng other))))
           (DISTANCE_THRESHOLD env)))"
proof -
  have one: "prefilter env currentUser others =
        filter (\<lambda>other. haversine (coord (home_lat currentUser)) (coord (home_lng currentUser))
                          (coord (home_lat other)) (coord (home_lng other)) \<le> t) others"
    if "DISTANCE_THRESHOLD env = Num t"
    using that by (rule prefilter_numeric)
  have two: "let candidates = prefilter env currentUser (other_users db userId);
           dt = fetch_drive_times env fetch currentUser candidates;
           st = candidate_loop env rest uuidv4 db userId dt currentUser
                  (my_preferences db userId) candidates
       in compute env fetch rest uuidv4 db userId =
            \<lparr>reply = Status200 (length (newMatches st)) (js_sort (newMatches st)),
             stored = cleared db userId @ inserted st,
             issued = requests dt\<rparr>"
    if "requester db userId = Some currentUser \<and>
        \<not> falsy (home_lat currentUser) \<and> \<not> falsy (home_lng currentUser) \<and>
        my_preferences db userId \<noteq> []"
  proof -
    from that have "compute env fetch rest uuidv4 db userId =
     \<lparr>reply = Status200 (length (newMatches (run_of env fetch rest uuidv4 db userId currentUser)))
                (js_sort (newMatches (run_of env fetch rest uuidv4 db userId currentUser))),
      stored = cleared db userId @ inserted (run_of env fetch rest uuidv4 db userId currentUser),
      issued = requests (drive_times_of env fetch db userId currentUser)\<rparr>"
      by (intro compute_run) simp_all
    then show ?thesis
      by (simp add: Let_def run_of_def drive_times_of_def candidates_of_def)
  qed
  have three: "p = (WORK_LAT env, WORK_LNG env) \<or>
        (\<exists>u. requester db userId = Some u \<and>
           (p = home u \<or>
            (\<exists>other \<in> set (other_users db userId). p = home other \<and>
               js_le (Num (haversine (coord (home_lat u)) (coord (home_lng u))
                             (coord (home_lat other)) (coord (home_lng other))))
                 (DISTANCE_THRESHOLD env))))"
    if r: "(os, ds) \<in> set (issued (compute env fetch rest uuidv4 db userId))"
      and p: "p \<in> set os \<union> set ds" for os ds p
  proof -
    from r have ne: "issued (compute env fetch rest uuidv4 db userId) \<noteq> []" by auto
    with issued_compute [of env fetch rest uuidv4 db userId]
    obtain u where u: "requester db userId = Some u"
      and iss: "issued (compute env fetch rest uuidv4 db userId) =
          requests (fetch_drive_times env fetch u (prefilter env u (other_users db userId)))"
      by auto
    from r p iss have "p = (WORK_LAT env, WORK_LNG env) \<or> p = home u \<or>
        p \<in> home ` set (prefilter env u (other_users db userId))"
      by (auto dest: requests_fetch_drive_times)
    with u show ?thesis by (auto simp: prefilter_def)
  qed
  have four: "\<exists>u other. requester db userId = Some u \<and>
         other \<in> set (other_users db userId) \<and> user_b_id row = uid other \<and>
         js_le (Num (haversine (coord (home_lat u)) (coord (home_lng u))
                       (coord (home_lat other)) (coord (home_lng other))))
           (DISTANCE_THRESHOLD env)"
    if "reply (compute env fetch rest uuidv4 db userId) = Status200 n body \<and>
        row \<in> set (stored (compute env fetch rest uuidv4 db userId)) \<and> user_a_id row = userId"
  proof -
    from that have "reply (compute env fetch rest uuidv4 db userId) = Status200 n body"
      "row \<in> set (stored (compute env fetch rest uuidv4 db userId))" "user_a_id row = userId"
      by simp_all
    then show ?thesis by (rule stored_within_threshold)
  qed
  from one two three four show ?thesis by blast
qed

text \<open>
  The theorem in the small deployment. Users 4 and 6 are beyond the threshold, and user
  6 has a preference that is compatible with the requester's. Without an API key and
  with an infinite detour threshold, so that the detour test drops nobody, the run
  issues no request and stores rows for users 2 and 3 only. With a key, the two
  requests of the run name users 2 and 3 only.
\<close>

theorem prefilter_before_lookup_witness:
  "prefilter example_env_lenient user1 [user2, user3, user4, user6] = [user2, user3] \<and>
   user6 \<in> set (other_users example_db ''user-1'') \<and>
   filter (\<lambda>p. user_id p = uid user6) (commute_preferences example_db) =
     [example_pref ''user-6'' ''DRIVER''] \<and>
   GOOGLE_MAPS_API_KEY example_env_lenient = None \<and>
   DETOUR_THRESHOLD example_env_lenient = PosInf \<and>
   compute example_env_lenient rejecting_fetch rest_NaN example_uuid example_db ''user-1'' =
     \<lparr>reply = Status200 2 (InOrder
        [\<lparr>match_id = ''m'', partner_name = ''Jane'', match_direction = ''TO_WORK'',
          detour_minutes = Num 0, time_overlap_minutes = Num 10, rank_score = Num (- 5)\<rparr>,
         \<lparr>match_id = ''mm'', partner_name = ''Raj'', match_direction = ''TO_WORK'',
          detour_minutes = Num 0, time_overlap_minutes = Num 10, rank_score = Num (- 5)\<rparr>]),
      stored =
        [\<lparr>row_id = ''m'', user_a_id = ''user-1'', user_b_id = ''user-2'', row_direction = ''TO_WORK'',
          row_detour_minutes = Num 0, row_time_overlap_minutes = Num 10,
          row_rank_score = Num (- 5)\<rparr>,
         \<lparr>row_id = ''mm'', user_a_id = ''user-1'', user_b_id = ''user-3'', row_direction = ''TO_WORK'',
          row_detour_minutes = Num 0, row_time_overlap_minutes = Num 10,
          row_rank_score = Num (- 5)\<rparr>],
      issued = []\<rparr> \<and>
   (\<exists>u other. requester example_db ''user-1'' = Some u \<and>
      other \<in> set (other_users example_db ''user-1'') \<and> ''user-2'' = uid other \<and>
      js_le (Num (haversine (coord (home_lat u)) (coord (home_lng u))
                    (coord (home_lat other)) (coord (home_lng other))))
        (DISTANCE_THRESHOLD example_env_lenient)) \<and>
   issued (compute example_env (example_fetch (ok_element 302) (ok_element 301)) rest_NaN
             example_uuid example_db ''user-1'') =
     [([home user1], [home user2, home user3, (42.9914, - 89.5326)]),
      ([home user2, home user3], [(42.9914, - 89.5326)])] \<and>
   (home user3 = (WORK_LAT example_env, WORK_LNG example_env) \<or>
    (\<exists>u. requester example_db ''user-1'' = Some u \<and>
       (home user3 = home u \<or>
        (\<exists>other \<in> set (other_users example_db ''user-1''). home user3 = home other \<and>
           js_le (Num (haversine (coord (home_lat u)) (coord (home_lng u))
                         (coord (home_lat other)) (coord (home_lng other))))
             (DISTANCE_THRESHOLD example_env)))))"
proof -
  let ?row2 = "\<lparr>row_id = ''m'', user_a_id = ''user-1'', user_b_id = ''user-2'', row_direction = ''TO_WORK'',
          row_detour_minutes = Num 0, row_time_overlap_minutes = Num 10,
          row_rank_score = Num (- 5)\<rparr>"
  let ?row3 = "\<lparr>row_id = ''mm'', user_a_id = ''user-1'', user_b_id = ''user-3'', row_direction = ''TO_WORK'',
          row_detour_minutes = Num 0, row_time_overlap_minutes = Num 10,
          row_rank_score = Num (- 5)\<rparr>"
  let ?body = "InOrder
        [\<lparr>match_id = ''m'', partner_name = ''Jane'', match_direction = ''TO_WORK'',
          detour_minutes = Num 0, time_overlap_minutes = Num 10, rank_score = Num (- 5)\<rparr>,
         \<lparr>match_id = ''mm'', partner_name = ''Raj'', match_direction = ''TO_WORK'',
          detour_minutes = Num 0, time_overlap_minutes = Num 10, rank_score = Num (- 5)\<rparr>]"
  have tl: "DISTANCE_THRESHOLD example_env_lenient = Num 30"
    and nk: "GOOGLE_MAPS_API_KEY example_env_lenient = None"
    and dl: "DETOUR_THRESHOLD example_env_lenient = PosInf"
    by (simp_all add: example_env_lenient_def)
  have t: "DISTANCE_THRESHOLD example_env = Num 30" by (simp add: example_env_def)
  from prefilter_before_lookup
    [where env = example_env_lenient and t = 30 and currentUser = user1
       and others = "[user2, user3, user4, user6]"] tl
  have "prefilter example_env_lenient user1 [user2, user3, user4, user6] =
        filter (\<lambda>other. haversine (coord (home_lat user1)) (coord (home_lng user1))
                          (coord (home_lat other)) (coord (home_lng other)) \<le> 30)
          [user2, user3, user4, user6]"
    by blast
  then have p: "prefilter example_env_lenient user1 [user2, user3, user4, user6] = [user2, user3]"
    using example_far by (simp add: example_user_defs haversine_same)
  have u6: "user6 \<in> set (other_users example_db ''user-1'')"
    by (simp add: example_other_users)
  have p6: "filter (\<lambda>p. user_id p = uid user6) (commute_preferences example_db) =
     [example_pref ''user-6'' ''DRIVER'']"
    by (simp add: example_db_def example_pref_def user6_def)
  have pre: "requester example_db ''user-1'' = Some user1 \<and>
        \<not> falsy (home_lat user1) \<and> \<not> falsy (home_lng user1) \<and>
        my_preferences example_db ''user-1'' \<noteq> []"
    by (simp add: example_requester example_located example_my_preferences)
  from prefilter_before_lookup
    [where env = example_env_lenient and db = example_db and userId = "''user-1''"
       and currentUser = user1 and fetch = rejecting_fetch and rest = rest_NaN
       and ?uuidv4.0 = example_uuid] pre
  have "let candidates = prefilter example_env_lenient user1 (other_users example_db ''user-1'');
           dt = fetch_drive_times example_env_lenient rejecting_fetch user1 candidates;
           st = candidate_loop example_env_lenient rest_NaN example_uuid example_db ''user-1'' dt user1
                  (my_preferences example_db ''user-1'') candidates
       in compute example_env_lenient rejecting_fetch rest_NaN example_uuid example_db ''user-1'' =
            \<lparr>reply = Status200 (length (newMatches st)) (js_sort (newMatches st)),
             stored = cleared example_db ''user-1'' @ inserted st,
             issued = requests dt\<rparr>"
    by blast
  then have c: "compute example_env_lenient rejecting_fetch rest_NaN example_uuid example_db ''user-1'' =
     \<lparr>reply = Status200 2 ?body, stored = [?row2, ?row3], issued = []\<rparr>"
    unfolding Let_def example_other_users example_prefilter [OF tl] example_my_preferences
      example_cleared example_loop_lenient
    by (simp add: example_no_key_times js_sort_def consistent_comparator_def comparator_def
        js_sub_def js_gt_def)
  then have ok: "reply (compute example_env_lenient rejecting_fetch rest_NaN example_uuid example_db ''user-1'') =
      Status200 2 ?body"
    and m2: "?row2 \<in> set (stored (compute example_env_lenient rejecting_fetch rest_NaN example_uuid
               example_db ''user-1''))"
    by simp_all
  have a2: "user_a_id ?row2 = ''user-1''" and b2: "user_b_id ?row2 = ''user-2''" by simp_all
  from prefilter_before_lookup
    [where env = example_env_lenient and db = example_db and userId = "''user-1''"
       and fetch = rejecting_fetch and rest = rest_NaN and ?uuidv4.0 = example_uuid
       and n = 2 and body = ?body and row = ?row2] ok m2 a2
  have "\<exists>u other. requester example_db ''user-1'' = Some u \<and>
      other \<in> set (other_users example_db ''user-1'') \<and> user_b_id ?row2 = uid other \<and>
      js_le (Num (haversine (coord (home_lat u)) (coord (home_lng u))
                    (coord (home_lat other)) (coord (home_lng other))))
        (DISTANCE_THRESHOLD example_env_lenient)"
    by blast
  then have w: "\<exists>u other. requester example_db ''user-1'' = Some u \<and>
      other \<in> set (other_users example_db ''user-1'') \<and> ''user-2'' = uid other \<and>
      js_le (Num (haversine (coord (home_lat u)) (coord (home_lng u))
                    (coord (home_lat other)) (coord (home_lng other))))
        (DISTANCE_THRESHOLD example_env_lenient)"
    unfolding b2 .
  have i: "issued (compute example_env (example_fetch (ok_element 302) (ok_element 301)) rest_NaN
             example_uuid example_db ''user-1'') =
     [([home user1], [home user2, home user3, (42.9914, - 89.5326)]),
      ([home user2, home user3], [(42.9914, - 89.5326)])]"
    unfolding example_run [OF t] example_fetch_drive_times by (simp add: example_times_def)
  then have m: "([home user2, home user3], [(42.9914, - 89.5326)]) \<in>
      set (issued (compute example_env (example_fetch (ok_element 302) (ok_element 301)) rest_NaN
             example_uuid example_db ''user-1''))"
    by simp
  have q: "home user3 \<in> set [home user2, home user3] \<union> set [(42.9914, - 89.5326)]" by simp
  from prefilter_before_lookup
    [where env = example_env and fetch = "example_fetch (ok_element 302) (ok_element 301)"
       and rest = rest_NaN and ?uuidv4.0 = example_uuid and db = example_db
       and userId = "''user-1''"] m q
  have r: "home user3 = (WORK_LAT example_env, WORK_LNG example_env) \<or>
    (\<exists>u. requester example_db ''user-1'' = Some u \<and>
       (home user3 = home u \<or>
        (\<exists>other \<in> set (other_users example_db ''user-1''). home user3 = home other \<and>
           js_le (Num (haversine (coord (home_lat u)) (coord (home_lng u))
                         (coord (home_lat other)) (coord (home_lng other))))
             (DISTANCE_THRESHOLD example_env))))"
    by blast
  from p u6 p6 nk dl c w i r show ?thesis by blast
qed

subsection \<open>Response and store\<close>

text \<open>
  Claim C7, as the code has it. For a run that answers 200, with \<open>st\<close> the state after
  the loop over the candidates that the prefilter kept: the count is the number of
  generated elements and the response holds exactly these. The store holds what the
  delete left followed by the inserted rows. Each inserted row is reported by the
  element at its position, with detour and score rounded to one decimal, and is the row
  of a pairing of a preference of the requester and one of a candidate, carrying the
  unrounded detour of that candidate and the score formed from that detour and the
  overlap. The comparator reads the reported score. When no reported score is NaN the
  response is in ascending order of the reported scores; whenever the order is
  determined, elements with the same reported score keep the order of generation; the
  order is left to the engine only when some reported score is NaN.
\<close>

theorem response_sorted_by_reported_score:
  "requester db userId = Some currentUser \<and>
   reply (compute env fetch rest uuidv4 db userId) = Status200 n body \<longrightarrow>
     (let candidates = candidates_of env db userId currentUser;
          dt = drive_times_of env fetch db userId currentUser;
          st = run_of env fetch rest uuidv4 db userId currentUser
      in n = length (newMatches st) \<and>
         body = js_sort (newMatches st) \<and>
         mset (listed body) = mset (newMatches st) \<and>
         stored (compute env fetch rest uuidv4 db userId) = cleared db userId @ inserted st \<and>
         list_all2 reported_from (inserted st) (newMatches st) \<and>
         (\<forall>row \<in> set (inserted st).
            \<exists>j < length candidates.
              \<exists>myPref \<in> set (my_preferences db userId).
                \<exists>otherPref \<in> set (filter (\<lambda>p. user_id p = uid (candidates ! j))
                                     (commute_preferences db)).
                  row_of_pair rest userId (candidates ! j)
                    (detourMinutes env dt currentUser j (candidates ! j)) myPref otherPref row) \<and>
         (list_all (\<lambda>m. rank_score m \<noteq> NaN) (newMatches st) \<longrightarrow>
            (\<exists>ms. body = InOrder ms \<and> sorted_wrt score_le ms)) \<and>
         (\<forall>ms. body = InOrder ms \<longrightarrow>
            (\<forall>k. filter (\<lambda>m. rank_score m = k) ms =
                  filter (\<lambda>m. rank_score m = k) (newMatches st))) \<and>
         (\<forall>ms. body = EngineOrder ms \<longrightarrow>
            \<not> list_all (\<lambda>m. rank_score m \<noteq> NaN) (newMatches st)))"
proof (intro impI, elim conjE)
  assume cu: "requester db userId = Some currentUser"
    and ok: "reply (compute env fetch rest uuidv4 db userId) = Status200 n body"
  define st where "st = run_of env fetch rest uuidv4 db userId currentUser"
  from compute_ok [OF ok] cu have pre: "\<not> falsy (home_lat currentUser)"
    "\<not> falsy (home_lng currentUser)" "my_preferences db userId \<noteq> []"
    by auto
  have run: "compute env fetch rest uuidv4 db userId =
     \<lparr>reply = Status200 (length (newMatches st)) (js_sort (newMatches st)),
      stored = cleared db userId @ inserted st,
      issued = requests (drive_times_of env fetch db userId currentUser)\<rparr>"
    unfolding st_def using cu pre by (rule compute_run)
  from ok have n: "n = length (newMatches st)" and body: "body = js_sort (newMatches st)"
    unfolding run by simp_all
  have perm: "mset (listed body) = mset (newMatches st)"
    unfolding body by (rule mset_listed_js_sort)
  have store: "stored (compute env fetch rest uuidv4 db userId) = cleared db userId @ inserted st"
    unfolding run by simp
  have "consistent st"
    unfolding st_def run_of_def by (rule consistent_candidate_loop)
  then have rep: "list_all2 reported_from (inserted st) (newMatches st)"
    by (simp add: consistent_def)
  have rows: "\<forall>row \<in> set (inserted st).
        \<exists>j < length (candidates_of env db userId currentUser).
          \<exists>myPref \<in> set (my_preferences db userId).
            \<exists>otherPref \<in> set (filter (\<lambda>p. user_id p = uid (candidates_of env db userId currentUser ! j))
                                 (commute_preferences db)).
              row_of_pair rest userId (candidates_of env db userId currentUser ! j)
                (detourMinutes env (drive_times_of env fetch db userId currentUser) currentUser j
                   (candidates_of env db userId currentUser ! j)) myPref otherPref row"
  proof
    fix row
    assume "row \<in> set (inserted st)"
    then have "row \<in> set (inserted (candidate_loop env rest uuidv4 db userId
        (drive_times_of env fetch db userId currentUser) currentUser (my_preferences db userId)
        (candidates_of env db userId currentUser)))"
      by (simp add: st_def run_of_def)
    then have "\<exists>j < length (candidates_of env db userId currentUser).
           \<not> js_gt (detourMinutes env (drive_times_of env fetch db userId currentUser) currentUser j
                      (candidates_of env db userId currentUser ! j)) (DETOUR_THRESHOLD env) \<and>
           (\<exists>myPref \<in> set (my_preferences db userId).
              \<exists>otherPref \<in> set (filter (\<lambda>p. user_id p = uid (candidates_of env db userId currentUser ! j))
                                   (commute_preferences db)).
                row_of_pair rest userId (candidates_of env db userId currentUser ! j)
                  (detourMinutes env (drive_times_of env fetch db userId currentUser) currentUser j
                     (candidates_of env db userId currentUser ! j)) myPref otherPref row)"
      by (rule row_candidate_loop)
    then show "\<exists>j < length (candidates_of env db userId currentUser).
          \<exists>myPref \<in> set (my_preferences db userId).
            \<exists>otherPref \<in> set (filter (\<lambda>p. user_id p = uid (candidates_of env db userId currentUser ! j))
                                 (commute_preferences db)).
              row_of_pair rest userId (candidates_of env db userId currentUser ! j)
                (detourMinutes env (drive_times_of env fetch db userId currentUser) currentUser j
                   (candidates_of env db userId currentUser ! j)) myPref otherPref row"
      by blast
  qed
  have asc: "\<exists>ms. body = InOrder ms \<and> sorted_wrt score_le ms"
    if "list_all (\<lambda>m. rank_score m \<noteq> NaN) (newMatches st)"
    unfolding body using js_sort_without_NaN [OF that] by blast
  have stable: "\<forall>ms. body = InOrder ms \<longrightarrow>
            (\<forall>k. filter (\<lambda>m. rank_score m = k) ms =
                  filter (\<lambda>m. rank_score m = k) (newMatches st))"
    unfolding body by (auto dest!: js_sort_InOrder simp: insertion_stable)
  have engine: "\<forall>ms. body = EngineOrder ms \<longrightarrow>
            \<not> list_all (\<lambda>m. rank_score m \<noteq> NaN) (newMatches st)"
    unfolding body using consistent_without_NaN by (auto dest!: js_sort_EngineOrder)
  from n body perm store rep rows asc stable engine
  show "let candidates = candidates_of env db userId currentUser;
          dt = drive_times_of env fetch db userId currentUser;
          st = run_of env fetch rest uuidv4 db userId currentUser
      in n = length (newMatches st) \<and>
         body = js_sort (newMatches st) \<and>
         mset (listed body) = mset (newMatches st) \<and>
         stored (compute env fetch rest uuidv4 db userId) = cleared db userId @ inserted st \<and>
         list_all2 reported_from (inserted st) (newMatches st) \<and>
         (\<forall>row \<in> set (inserted st).
            \<exists>j < length candidates.
              \<exists>myPref \<in> set (my_preferences db userId).
                \<exists>otherPref \<in> set (filter (\<lambda>p. user_id p = uid (candidates ! j))
                                     (commute_preferences db)).
                  row_of_pair rest userId (candidates ! j)
                    (detourMinutes env dt currentUser j (candidates ! j)) myPref otherPref row) \<and>
         (list_all (\<lambda>m. rank_score m \<noteq> NaN) (newMatches st) \<longrightarrow>
            (\<exists>ms. body = InOrder ms \<and> sorted_wrt score_le ms)) \<and>
         (\<forall>ms. body = InOrder ms \<longrightarrow>
            (\<forall>k. filter (\<lambda>m. rank_score m = k) ms =
                  filter (\<lambda>m. rank_score m = k) (newMatches st))) \<and>
         (\<forall>ms. body = EngineOrder ms \<longrightarrow>
            \<not> list_all (\<lambda>m. rank_score m \<noteq> NaN) (newMatches st))"
    unfolding Let_def st_def [symmetric] by blast
qed

text \<open>
  The theorem in the small deployment, with detours of 6 and 5.5 minutes: the second
  candidate is reported first, and the store holds the two rows in the order of
  generation with the unrounded values.
\<close>

theorem response_sorted_by_reported_score_witness:
  "requester example_db ''user-1'' = Some user1 \<and>
   reply (compute example_env (example_fetch (ok_element 360) (ok_element 330)) rest_NaN
            example_uuid example_db ''user-1'') =
     Status200 2 (InOrder
       [\<lparr>match_id = ''mm'', partner_name = ''Raj'', match_direction = ''TO_WORK'',
         detour_minutes = Num (11 / 2), time_overlap_minutes = Num 10, rank_score = Num (1 / 2)\<rparr>,
        \<lparr>match_id = ''m'', partner_name = ''Jane'', match_direction = ''TO_WORK'',
         detour_minutes = Num 6, time_overlap_minutes = Num 10, rank_score = Num 1\<rparr>]) \<and>
   sorted_wrt score_le
       [\<lparr>match_id = ''mm'', partner_name = ''Raj'', match_direction = ''TO_WORK'',
         detour_minutes = Num (11 / 2), time_overlap_minutes = Num 10, rank_score = Num (1 / 2)\<rparr>,
        \<lparr>match_id = ''m'', partner_name = ''Jane'', match_direction = ''TO_WORK'',
         detour_minutes = Num 6, time_overlap_minutes = Num 10, rank_score = Num 1\<rparr>] \<and>
   stored (compute example_env (example_fetch (ok_element 360) (ok_element 330)) rest_NaN
            example_uuid example_db ''user-1'') =
     [\<lparr>row_id = ''m'', user_a_id = ''user-1'', user_b_id = ''user-2'', row_direction = ''TO_WORK'',
       row_detour_minutes = Num 6, row_time_overlap_minutes = Num 10, row_rank_score = Num 1\<rparr>,
      \<lparr>row_id = ''mm'', user_a_id = ''user-1'', user_b_id = ''user-3'', row_direction = ''TO_WORK'',
       row_detour_minutes = Num (11 / 2), row_time_overlap_minutes = Num 10,
       row_rank_score = Num (1 / 2)\<rparr>] \<and>
   detourMinutes example_env (example_times (ok_element 360) (ok_element 330)) user1 1 user3 =
     Num (11 / 2) \<and>
   (\<exists>j < length [user2, user3].
      \<exists>myPref \<in> set (my_preferences example_db ''user-1'').
        \<exists>otherPref \<in> set (filter (\<lambda>p. user_id p = uid ([user2, user3] ! j))
                             (commute_preferences example_db)).
          row_of_pair rest_NaN ''user-1'' ([user2, user3] ! j)
            (detourMinutes example_env (example_times (ok_element 360) (ok_element 330)) user1 j
               ([user2, user3] ! j)) myPref otherPref
            \<lparr>row_id = ''mm'', user_a_id = ''user-1'', user_b_id = ''user-3'',
             row_direction = ''TO_WORK'', row_detour_minutes = Num (11 / 2),
             row_time_overlap_minutes = Num 10, row_rank_score = Num (1 / 2)\<rparr>)"
proof -
  let ?f = "example_fetch (ok_element 360) (ok_element 330)"
  let ?m = "\<lparr>match_id = ''m'', partner_name = ''Jane'', match_direction = ''TO_WORK'',
         detour_minutes = Num 6, time_overlap_minutes = Num 10, rank_score = Num 1\<rparr>"
  let ?mm = "\<lparr>match_id = ''mm'', partner_name = ''Raj'', match_direction = ''TO_WORK'',
         detour_minutes = Num (11 / 2), time_overlap_minutes = Num 10, rank_score = Num (1 / 2)\<rparr>"
  let ?r2 = "\<lparr>row_id = ''m'', user_a_id = ''user-1'', user_b_id = ''user-2'', row_direction = ''TO_WORK'',
       row_detour_minutes = Num 6, row_time_overlap_minutes = Num 10, row_rank_score = Num 1\<rparr>"
  let ?r3 = "\<lparr>row_id = ''mm'', user_a_id = ''user-1'', user_b_id = ''user-3'', row_direction = ''TO_WORK'',
       row_detour_minutes = Num (11 / 2), row_time_overlap_minutes = Num 10,
       row_rank_score = Num (1 / 2)\<rparr>"
  let ?st = "\<lparr>inserted = [?r2, ?r3], newMatches = [?m, ?mm]\<rparr>"
  have r: "reply (compute example_env ?f rest_NaN example_uuid example_db ''user-1'') =
      Status200 2 (InOrder [?mm, ?m])"
    unfolding example_reply [OF example_loop_apart]
    by (simp add: js_sort_def consistent_comparator_def comparator_def js_sub_def js_gt_def)
  have d: "detourMinutes example_env (example_times (ok_element 360) (ok_element 330)) user1 1 user3 =
     Num (11 / 2)"
    by (simp add: detourMinutes_def example_times_def element_minutes_def ok_element_def cell_at_def
        Math_max_def js_sub_def)
  note T = response_sorted_by_reported_score
    [where db = example_db and userId = "''user-1''" and currentUser = user1
       and env = example_env and fetch = ?f and rest = rest_NaN and ?uuidv4.0 = example_uuid
       and n = 2 and body = "InOrder [?mm, ?m]", THEN mp, OF conjI [OF example_requester r],
     unfolded Let_def example_run_of example_loop_apart]
  note L = T [THEN conjunct2, THEN conjunct2, THEN conjunct2, THEN conjunct1]
    T [THEN conjunct2, THEN conjunct2, THEN conjunct2, THEN conjunct2, THEN conjunct2,
       THEN conjunct2, THEN conjunct1]
    T [THEN conjunct2, THEN conjunct2, THEN conjunct2, THEN conjunct2, THEN conjunct2,
       THEN conjunct1]
  from L(1) have s: "stored (compute example_env ?f rest_NaN example_uuid example_db ''user-1'') =
      [?r2, ?r3]"
    by (simp add: example_cleared)
  from L(2) have o: "sorted_wrt score_le [?mm, ?m]" by simp
  have "?r3 \<in> set (inserted ?st)" by simp
  with L(3) [THEN bspec, of ?r3] have w: "\<exists>j < length [user2, user3].
          \<exists>myPref \<in> set (my_preferences example_db ''user-1'').
            \<exists>otherPref \<in> set (filter (\<lambda>p. user_id p = uid ([user2, user3] ! j))
                                 (commute_preferences example_db)).
              row_of_pair rest_NaN ''user-1'' ([user2, user3] ! j)
                (detourMinutes example_env (example_times (ok_element 360) (ok_element 330)) user1 j
                   ([user2, user3] ! j)) myPref otherPref ?r3"
    by blast
  from example_requester r o s d w show ?thesis by blast
qed

text \<open>
  Claim C7 as stated fails where it says that the order is decided on the raw scores.
  With detours of 302 and 301 seconds the raw scores are 1/30 and 1/60, both reported as
  0, and the response lists the match with the larger raw score first.
\<close>

theorem response_sorted_by_reported_score_counterexample:
  "reply (compute example_env (example_fetch (ok_element 302) (ok_element 301)) rest_NaN
            example_uuid example_db ''user-1'') =
     Status200 2 (InOrder
       [\<lparr>match_id = ''m'', partner_name = ''Jane'', match_direction = ''TO_WORK'',
         detour_minutes = Num 5, time_overlap_minutes = Num 10, rank_score = Num 0\<rparr>,
        \<lparr>match_id = ''mm'', partner_name = ''Raj'', match_direction = ''TO_WORK'',
         detour_minutes = Num 5, time_overlap_minutes = Num 10, rank_score = Num 0\<rparr>]) \<and>
   stored (compute example_env (example_fetch (ok_element 302) (ok_element 301)) rest_NaN
            example_uuid example_db ''user-1'') =
     [\<lparr>row_id = ''m'', user_a_id = ''user-1'', user_b_id = ''user-2'', row_direction = ''TO_WORK'',
       row_detour_minutes = Num (151 / 30), row_time_overlap_minutes = Num 10,
       row_rank_score = Num (1 / 30)\<rparr>,
      \<lparr>row_id = ''mm'', user_a_id = ''user-1'', user_b_id = ''user-3'', row_direction = ''TO_WORK'',
       row_detour_minutes = Num (301 / 60), row_time_overlap_minutes = Num 10,
       row_rank_score = Num (1 / 60)\<rparr>] \<and>
   js_less (Num (1 / 60)) (Num (1 / 30))"
  unfolding example_reply [OF example_loop_close]
  by (simp add: js_sort_def consistent_comparator_def comparator_def js_sub_def js_gt_def)

end
